theory Spec2Isabelle
  imports Complex_Main "HOL-Library.Monad_Syntax"
begin

section \<open>Numbers, vectors and grids\<close>

text \<open>
  The simulation kernel is TypeScript. Its \<^verbatim>\<open>number\<close> values are modelled as
  \<^typ>\<open>real\<close> (exact arithmetic instead of IEEE doubles and of the Float32 score
  arrays of the planner, except for the loop counters of the sweep driver, which are
  rounded); counters and identifiers that the code only ever
  increments by one are \<^typ>\<open>nat\<close> or \<^typ>\<open>int\<close>. A \<^verbatim>\<open>Vec2\<close> is the
  pair of its \<^verbatim>\<open>x\<close> and \<^verbatim>\<open>y\<close>. A grid is an array of rows.
\<close>

type_synonym Vec2 = "real \<times> real"

type_synonym 'a grid = "'a list list"

text \<open>
  \<^verbatim>\<open>g[r]?.[c]\<close> read for its truth value: a row or a column that does not exist
  gives \<^verbatim>\<open>undefined\<close>, which is falsy.
\<close>

definition cellAt :: "bool grid \<Rightarrow> int \<Rightarrow> int \<Rightarrow> bool" where
  "cellAt g r c =
     (0 \<le> r \<and> r < int (length g) \<and> 0 \<le> c \<and> c < int (length (g ! nat r)) \<and> g ! nat r ! nat c)"

definition v2_clamp :: "real \<Rightarrow> real \<Rightarrow> real \<Rightarrow> real" where
  "v2_clamp v lo hi = max lo (min hi v)"

definition v2_dist2 :: "Vec2 \<Rightarrow> Vec2 \<Rightarrow> real" where
  "v2_dist2 a b = (fst a - fst b)\<^sup>2 + (snd a - snd b)\<^sup>2"

definition v2_dist :: "Vec2 \<Rightarrow> Vec2 \<Rightarrow> real" where
  "v2_dist a b = sqrt ((fst a - fst b)\<^sup>2 + (snd a - snd b)\<^sup>2)"

section \<open>The A* planner (utils/astar)\<close>

definition toGrid :: "nat \<Rightarrow> nat \<Rightarrow> real \<Rightarrow> Vec2 \<Rightarrow> int \<times> int" where
  "toGrid rows cols cellSize w =
     (max 0 (min (int rows - 1) \<lfloor>snd w / cellSize\<rfloor>),
      max 0 (min (int cols - 1) \<lfloor>fst w / cellSize\<rfloor>))"

definition toWorld :: "real \<Rightarrow> int \<Rightarrow> int \<Rightarrow> Vec2" where
  "toWorld cellSize r c = ((real_of_int c + 0.5) * cellSize, (real_of_int r + 0.5) * cellSize)"

subsection \<open>Goal-cell repair\<close>

text \<open>
  The loop variables of the repair: \<^verbatim>\<open>best\<close> (\<^verbatim>\<open>Infinity\<close> is \<open>None\<close>),
  the goal cell \<^verbatim>\<open>gr\<close>, \<^verbatim>\<open>gc\<close> that the loop overwrites, and \<^verbatim>\<open>found\<close>.
  Both \<^verbatim>\<open>for\<close> loops carry the condition \<^verbatim>\<open>&& !found\<close>.
\<close>

record repair_state =
  best :: "int option"
  rep_gr :: int
  rep_gc :: int
  rep_found :: bool

definition repairCell :: "bool grid \<Rightarrow> nat \<Rightarrow> nat \<Rightarrow> int \<Rightarrow> int \<Rightarrow> repair_state \<Rightarrow> repair_state" where
  "repairCell passable rows cols dr dc st =
     (let nr = rep_gr st + dr; nc = rep_gc st + dc in
      if nr \<ge> 0 \<and> nr < int rows \<and> nc \<ge> 0 \<and> nc < int cols \<and> cellAt passable nr nc
      then (let d = dr * dr + dc * dc in
            if (case best st of None \<Rightarrow> True | Some b \<Rightarrow> d < b)
            then st\<lparr>best := Some d, rep_gr := nr, rep_gc := nc, rep_found := True\<rparr>
            else st)
      else st)"

fun repairCols :: "bool grid \<Rightarrow> nat \<Rightarrow> nat \<Rightarrow> int \<Rightarrow> int list \<Rightarrow> repair_state \<Rightarrow> repair_state" where
  "repairCols passable rows cols dr [] st = st"
| "repairCols passable rows cols dr (dc # dcs) st =
     (if rep_found st then st
      else repairCols passable rows cols dr dcs (repairCell passable rows cols dr dc st))"

fun repairRows :: "bool grid \<Rightarrow> nat \<Rightarrow> nat \<Rightarrow> int list \<Rightarrow> repair_state \<Rightarrow> repair_state" where
  "repairRows passable rows cols [] st = st"
| "repairRows passable rows cols (dr # drs) st =
     (if rep_found st then st
      else repairRows passable rows cols drs (repairCols passable rows cols dr [-3..3] st))"

definition repairGoal :: "bool grid \<Rightarrow> nat \<Rightarrow> nat \<Rightarrow> int \<times> int \<Rightarrow> int \<times> int" where
  "repairGoal passable rows cols gg =
     (if \<not> cellAt passable (fst gg) (snd gg)
      then (let st = repairRows passable rows cols [-3..3]
                       \<lparr>best = None, rep_gr = fst gg, rep_gc = snd gg, rep_found = False\<rparr>
            in (rep_gr st, rep_gc st))
      else gg)"

subsection \<open>The search\<close>

text \<open>
  The typed arrays \<^verbatim>\<open>gScore\<close>, \<^verbatim>\<open>fScore\<close>, \<^verbatim>\<open>cameFrom\<close> and \<^verbatim>\<open>inOpen\<close>
  have \<^verbatim>\<open>rows * cols\<close> entries and are indexed by \<^verbatim>\<open>r * cols + c\<close>; they are
  modelled by their contents as functions of the index.
\<close>

record astar_state =
  gScore :: "nat \<Rightarrow> real"
  fScore :: "nat \<Rightarrow> real"
  cameFrom :: "nat \<Rightarrow> int"
  openL :: "nat list"
  inOpen :: "nat set"
  found :: bool

definition ASTAR_INF :: real where
  "ASTAR_INF = 1000000000"

definition heuristic :: "int \<Rightarrow> int \<Rightarrow> int \<Rightarrow> int \<Rightarrow> real" where
  "heuristic gr gc r c = sqrt (real_of_int ((r - gr)\<^sup>2 + (c - gc)\<^sup>2))"

definition dirs :: "(int \<times> int \<times> real) list" where
  "dirs = [(-1, 0, 1), (1, 0, 1), (0, -1, 1), (0, 1, 1),
           (-1, -1, 1.414), (-1, 1, 1.414), (1, -1, 1.414), (1, 1, 1.414)]"

text \<open>The linear scan for the open node of least \<^verbatim>\<open>fScore\<close>: \<^verbatim>\<open>(minF, minI, minPos)\<close>.\<close>

fun scanMin :: "(nat \<Rightarrow> real) \<Rightarrow> nat list \<Rightarrow> nat \<Rightarrow> real \<times> nat \<times> nat \<Rightarrow> real \<times> nat \<times> nat" where
  "scanMin f [] i acc = acc"
| "scanMin f (n # ns) i (minF, minI, minPos) =
     scanMin f ns (Suc i) (if f n < minF then (f n, n, i) else (minF, minI, minPos))"

definition splice1 :: "nat \<Rightarrow> 'a list \<Rightarrow> 'a list" where
  "splice1 pos xs = take pos xs @ drop (Suc pos) xs"

definition relax ::
  "bool grid \<Rightarrow> nat \<Rightarrow> nat \<Rightarrow> int \<Rightarrow> int \<Rightarrow> nat \<Rightarrow> astar_state \<Rightarrow> int \<times> int \<times> real \<Rightarrow> astar_state" where
  "relax passable rows cols gr gc minI st d =
     (case d of (dr, dc, cost) \<Rightarrow>
        let cr = int (minI div cols); cc = int (minI mod cols);
            nr = cr + dr; nc = cc + dc in
        if nr < 0 \<or> nr \<ge> int rows \<or> nc < 0 \<or> nc \<ge> int cols then st
        else if \<not> cellAt passable nr nc then st
        else let ni = nat nr * cols + nat nc;
                 tentG = gScore st minI + cost in
             if tentG < gScore st ni
             then (let st1 = st\<lparr>cameFrom := (cameFrom st)(ni := int minI),
                                  gScore := (gScore st)(ni := tentG),
                                  fScore := (fScore st)(ni := tentG + heuristic gr gc nr nc)\<rparr>
                   in if ni \<notin> inOpen st1
                      then st1\<lparr>openL := openL st1 @ [ni], inOpen := insert ni (inOpen st1)\<rparr>
                      else st1)
             else st)"

definition popMin :: "astar_state \<Rightarrow> nat \<times> astar_state" where
  "popMin st =
     (case scanMin (fScore st) (openL st) 0 (ASTAR_INF, 0, 0) of
        (minF, minI, minPos) \<Rightarrow> (minI, st\<lparr>openL := splice1 minPos (openL st)\<rparr>))"

definition expand :: "bool grid \<Rightarrow> nat \<Rightarrow> nat \<Rightarrow> int \<Rightarrow> int \<Rightarrow> nat \<Rightarrow> astar_state \<Rightarrow> astar_state" where
  "expand passable rows cols gr gc minI st = foldl (relax passable rows cols gr gc minI) st dirs"

definition openMeasure :: "nat \<Rightarrow> nat \<Rightarrow> astar_state \<Rightarrow> nat" where
  "openMeasure rows cols st = 2 * card ({..<rows * cols} - inOpen st) + length (openL st)"

lemma scanMin_pos:
  "p < i + length ns \<Longrightarrow> snd (snd (scanMin f ns i (a, b, p))) < i + length ns"
proof (induction ns arbitrary: i a b p)
  case Nil
  then show ?case by simp
next
  case (Cons n ns)
  have 1: "i < Suc i + length ns" by simp
  have 2: "p < Suc i + length ns" using Cons.prems by simp
  show ?case using Cons.IH [OF 1] Cons.IH [OF 2] by simp
qed

lemma popMin_length:
  assumes "openL st \<noteq> []"
  shows "length (openL (snd (popMin st))) < length (openL st)"
proof -
  obtain a b p where s: "scanMin (fScore st) (openL st) 0 (ASTAR_INF, 0, 0) = (a, b, p)"
    by (cases "scanMin (fScore st) (openL st) 0 (ASTAR_INF, 0, 0)") auto
  have "snd (snd (scanMin (fScore st) (openL st) 0 (ASTAR_INF, 0, 0))) < 0 + length (openL st)"
    using assms by (intro scanMin_pos) simp
  then have "p < length (openL st)" using s by simp
  then show ?thesis using s by (simp add: popMin_def splice1_def)
qed

lemma popMin_inOpen: "inOpen (snd (popMin st)) = inOpen st"
  by (simp add: popMin_def split: prod.splits)

lemma cell_index_bound:
  assumes "0 \<le> nr" "nr < int rows" "0 \<le> nc" "nc < int cols"
  shows "nat nr * cols + nat nc < rows * cols"
proof -
  have "nat nr * cols + nat nc < nat nr * cols + cols" using assms by simp
  also have "\<dots> = Suc (nat nr) * cols" by simp
  also have "\<dots> \<le> rows * cols" using assms by (intro mult_le_mono1) simp
  finally show ?thesis .
qed

lemma card_open_insert:
  assumes "(ni::nat) < n" "ni \<notin> S"
  shows "Suc (card ({..<n} - insert ni S)) = card ({..<n} - S)"
proof -
  have eq: "{..<n} - insert ni S = ({..<n} - S) - {ni}" by auto
  have mem: "ni \<in> {..<n} - S" using assms by simp
  have fin: "finite ({..<n} - S)" by simp
  have pos: "0 < card ({..<n} - S)" using mem fin by (auto simp add: card_gt_0_iff)
  have "card (({..<n} - S) - {ni}) = card ({..<n} - S) - 1"
    using mem by (simp add: card_Diff_singleton)
  then show ?thesis using pos eq by simp
qed

lemma relax_measure:
  "openMeasure rows cols (relax passable rows cols gr gc minI st d) \<le> openMeasure rows cols st"
proof -
  obtain dr dc cost where d: "d = (dr, dc, cost)" by (cases d) auto
  define nr where "nr = int (minI div cols) + dr"
  define nc where "nc = int (minI mod cols) + dc"
  show ?thesis
  proof (cases "0 \<le> nr \<and> nr < int rows \<and> 0 \<le> nc \<and> nc < int cols \<and> nat nr * cols + nat nc \<notin> inOpen st")
    case True
    then have "nat nr * cols + nat nc < rows * cols" by (simp add: cell_index_bound)
    from card_open_insert [OF this] True
    have "Suc (card ({..<rows * cols} - insert (nat nr * cols + nat nc) (inOpen st)))
            = card ({..<rows * cols} - inOpen st)" by simp
    then show ?thesis
      using True by (simp add: relax_def d openMeasure_def Let_def nr_def nc_def)
  next
    case False
    then show ?thesis
      by (auto simp add: relax_def d openMeasure_def Let_def nr_def nc_def)
  qed
qed

lemma foldl_relax_measure:
  "openMeasure rows cols (foldl (relax passable rows cols gr gc minI) st ds) \<le> openMeasure rows cols st"
proof (induction ds arbitrary: st)
  case Nil
  show ?case by simp
next
  case (Cons d ds)
  have "openMeasure rows cols (foldl (relax passable rows cols gr gc minI) (relax passable rows cols gr gc minI st d) ds)
          \<le> openMeasure rows cols (relax passable rows cols gr gc minI st d)"
    by (rule Cons.IH)
  also have "\<dots> \<le> openMeasure rows cols st" by (rule relax_measure)
  finally show ?case by simp
qed

lemma expand_popMin_measure:
  assumes "openL st \<noteq> []"
  shows "openMeasure rows cols (expand passable rows cols gr gc minI (snd (popMin st)))
           < openMeasure rows cols st"
proof -
  have "openMeasure rows cols (expand passable rows cols gr gc minI (snd (popMin st)))
          \<le> openMeasure rows cols (snd (popMin st))"
    unfolding expand_def by (rule foldl_relax_measure)
  also have "\<dots> < openMeasure rows cols st"
    using popMin_length [OF assms] by (simp add: openMeasure_def popMin_inOpen)
  finally show ?thesis .
qed

text \<open>
  The \<^verbatim>\<open>while (open.length > 0)\<close> loop. A node enters \<^verbatim>\<open>open\<close> only while its
  \<^verbatim>\<open>inOpen\<close> flag is clear, and the flag is never cleared again, so the loop ends.
\<close>

function astar_loop ::
  "bool grid \<Rightarrow> nat \<Rightarrow> nat \<Rightarrow> int \<Rightarrow> int \<Rightarrow> nat \<Rightarrow> astar_state \<Rightarrow> astar_state" where
  "astar_loop passable rows cols gr gc gi st =
     (if openL st = [] then st
      else if fst (popMin st) = gi then (snd (popMin st))\<lparr>found := True\<rparr>
      else astar_loop passable rows cols gr gc gi
             (expand passable rows cols gr gc (fst (popMin st)) (snd (popMin st))))"
  by pat_completeness auto
termination
  by (relation "measure (\<lambda>(passable, rows, cols, gr, gc, gi, st). openMeasure rows cols st)")
     (simp_all add: expand_popMin_measure)

declare astar_loop.simps [simp del]

text \<open>
  Path reconstruction, \<^verbatim>\<open>while (cur !== si)\<close>. It follows \<^verbatim>\<open>cameFrom\<close> and may
  not return: once \<^verbatim>\<open>cur\<close> is \<^verbatim>\<open>-1\<close> the loop reads \<^verbatim>\<open>cameFrom[-1]\<close>, which is
  \<^verbatim>\<open>undefined\<close>, and never meets \<^verbatim>\<open>si\<close> again. Not returning is \<open>None\<close>.
\<close>

partial_function (option) reconstruct ::
  "(nat \<Rightarrow> int) \<Rightarrow> nat \<Rightarrow> real \<Rightarrow> nat \<Rightarrow> int \<Rightarrow> Vec2 list \<Rightarrow> Vec2 list option" where
  "reconstruct cf cols cellSize si cur path =
     (if cur = int si then Some path
      else if cur < 0 then None
      else reconstruct cf cols cellSize si (cf (nat cur))
             (path @ [toWorld cellSize (cur div int cols) (cur mod int cols)]))"

text \<open>Straight-line pruning of the waypoints.\<close>

fun simplifyFrom :: "Vec2 list \<Rightarrow> Vec2 list \<Rightarrow> Vec2 list" where
  "simplifyFrom result (wp # wp' # wps) =
     (let prev = last result;
          cross = (fst wp - fst prev) * (snd wp' - snd prev)
                  - (snd wp - snd prev) * (fst wp' - fst prev)
      in simplifyFrom (if \<bar>cross\<bar> > 0.1 then result @ [wp] else result) (wp' # wps))"
| "simplifyFrom result [l] = result @ [l]"
| "simplifyFrom result [] = result"

definition simplifyPath :: "Vec2 list \<Rightarrow> Vec2 list" where
  "simplifyPath path =
     (if length path \<le> 2 then path else simplifyFrom [hd path] (tl path))"

definition astar_init :: "nat \<Rightarrow> real \<Rightarrow> astar_state" where
  "astar_init si h0 =
     \<lparr>gScore = (\<lambda>_. ASTAR_INF)(si := 0), fScore = (\<lambda>_. ASTAR_INF)(si := h0),
      cameFrom = (\<lambda>_. -1), openL = [si], inOpen = {si}, found = False\<rparr>"

definition astar :: "bool grid \<Rightarrow> Vec2 \<Rightarrow> Vec2 \<Rightarrow> real \<Rightarrow> Vec2 list option" where
  "astar passable startWorld goalWorld cellSize =
     (let rows = length passable in
      if rows = 0 then Some [goalWorld]
      else
        let cols = length (passable ! 0);
            sg = toGrid rows cols cellSize startWorld;
            gg = toGrid rows cols cellSize goalWorld
        in
        if \<not> cellAt passable (fst sg) (snd sg) then Some [goalWorld]
        else
          let g = repairGoal passable rows cols gg; gr = fst g; gc = snd g in
          if fst sg = gr \<and> snd sg = gc then Some [goalWorld]
          else
            let si = nat (fst sg) * cols + nat (snd sg);
                gi = nat gr * cols + nat gc;
                st = astar_loop passable rows cols gr gc gi
                       (astar_init si (heuristic gr gc (fst sg) (snd sg)))
            in
            if \<not> found st then Some [goalWorld]
            else
              do {
                path \<leftarrow> reconstruct (cameFrom st) cols cellSize si (int gi) [];
                Some (simplifyPath (rev path @ [goalWorld]))
              })"

section \<open>The data model (models/types)\<close>

record Rect =
  rect_x :: real
  rect_y :: real
  rect_w :: real
  rect_h :: real

record Wall =
  wall_id :: string
  rect :: Rect

record Entrance =
  ent_id :: string
  ent_x :: real
  ent_y :: real
  ent_width :: real

record Exit =
  exit_id :: string
  exit_x :: real
  exit_y :: real
  exit_width :: real
  exit_capacity :: real

record Attractor =
  att_id :: string
  att_x :: real
  att_y :: real
  att_radius :: real
  weight :: real
  label :: string
  serviceTime :: real
  att_queueEnabled :: bool
  queueCapacity :: real

record VenueLayout =
  width :: real
  height :: real
  walls :: "Wall list"
  entrances :: "Entrance list"
  exits :: "Exit list"
  attractors :: "Attractor list"

datatype AgentState =
  seeking_attractor | queuing | at_attractor | seeking_exit | evacuating | exited

record Agent =
  agent_id :: nat
  pos_x :: real
  pos_y :: real
  vel_x :: real
  vel_y :: real
  radius :: real
  speed :: real
  state :: AgentState
  targetAttractorId :: "string option"
  targetExitId :: "string option"
  path :: "Vec2 list"
  pathIndex :: nat
  spawnTime :: real
  exitTime :: real
  atAttractorUntil :: real
  stuckTimer :: real

datatype ArrivalMode = Burst | Linear | Gaussian

record SimConfig =
  cfg_N :: real
  arrivalMode :: ArrivalMode
  arrivalDuration :: real
  speedMin :: real
  speedMean :: real
  speedMax :: real
  personalSpace :: real
  avoidanceStrength :: real
  queueEnabled :: bool
  evacuationEnabled :: bool
  evacuationTime :: real
  panicSpeedMultiplier :: real
  densityWarning :: real
  densityDanger :: real
  cellSize :: real
  egresTimeLimitMin :: real
  warningTimeLimitPct :: real
  sweepStep :: real
  sweepMinN :: real
  sweepMaxN :: real

record Firefighter =
  ff_id :: nat
  ff_x :: real
  ff_y :: real
  ff_vx :: real
  ff_vy :: real
  ff_path :: "Vec2 list"
  ff_pathIndex :: nat
  targetCell :: "(int \<times> int) option"
  extinguishTimer :: real

section \<open>The simulation kernel (sim/engine)\<close>

text \<open>
  The state of one \<^verbatim>\<open>SimEngine\<close>. The fields follow the class. Three things the class
  keeps outside its fields are fields here: the module counters \<^verbatim>\<open>_nextId\<close> and
  \<^verbatim>\<open>_ffNextId\<close>, and the ambient generator behind \<^verbatim>\<open>Math.random()\<close>, which is the
  sequence \<open>rand\<close> of the values it will return together with the number \<open>rngPos\<close> of
  values already drawn. The \<^verbatim>\<open>agentMap\<close> holds the very objects of \<^verbatim>\<open>agents\<close>, keyed
  by id; it is read off the agent list (the agent pushed last under an id). The
  spatial hash is its cell size and its buckets, keyed by \<^verbatim>\<open>cx * 100003 + cy\<close>.
\<close>

record SimEngine =
  layout :: VenueLayout
  cfg :: SimConfig
  agents :: "Agent list"
  simTime :: real
  isRunning :: bool
  isEvacuating :: bool
  passable :: "bool grid"
  hashCellSize :: real
  hashCells :: "int \<Rightarrow> nat list"
  peakDensity :: real
  timeAboveWarning :: real
  timeAboveDanger :: real
  egressTimes :: "real list"
  queues :: "string \<Rightarrow> nat list option"
  queueServiced :: "string \<Rightarrow> int option"
  fireGrid :: "bool grid"
  fireSpread :: "real grid"
  smokeGrid :: "real grid"
  fireCellCount :: int
  hasSmoke :: bool
  fireCols :: nat
  fireRows :: nat
  fireStartTime :: real
  blockedExits :: "string set"
  firefighters :: "Firefighter list"
  firefightersSpawned :: bool
  spawnedCount :: nat
  totalToSpawn :: real
  entranceWeights :: "real list"
  nextId :: nat
  ffNextId :: nat
  rand :: "nat \<Rightarrow> real"
  rngPos :: nat

definition TAU :: real where "TAU = 0.5"
definition A_AGENT :: real where "A_AGENT = 2.0"
definition B_AGENT :: real where "B_AGENT = 0.15"
definition A_WALL :: real where "A_WALL = 3.0"
definition B_WALL :: real where "B_WALL = 0.1"
definition STUCK_TIME :: real where "STUCK_TIME = 2.5"
definition ASTAR_CELL :: real where "ASTAR_CELL = 1.0"
definition FIRE_SPREAD_RATE :: real where "FIRE_SPREAD_RATE = 0.18"
definition FIRE_REPULSION :: real where "FIRE_REPULSION = 10.0"
definition FIRE_REP_DECAY :: real where "FIRE_REP_DECAY = 0.4"
definition FIRE_SEARCH_R :: int where "FIRE_SEARCH_R = 6"
definition SMOKE_DIFFUSE :: real where "SMOKE_DIFFUSE = 0.06"
definition SMOKE_DECAY :: real where "SMOKE_DECAY = 0.018"
definition FF_RESPONSE_DELAY :: real where "FF_RESPONSE_DELAY = 30"
definition FF_COUNT :: nat where "FF_COUNT = 3"
definition FF_SPEED :: real where "FF_SPEED = 1.6"
definition FF_EXTINGUISH_T :: real where "FF_EXTINGUISH_T = 1.5"

text \<open>A string or \<^verbatim>\<open>null\<close> read as a condition: \<^verbatim>\<open>null\<close> and the empty string are falsy.\<close>

definition truthy :: "string option \<Rightarrow> bool" where
  "truthy v = (case v of None \<Rightarrow> False | Some str \<Rightarrow> str \<noteq> [])"

text \<open>Loops over array positions, in a monad where \<open>None\<close> is a call that does not return.\<close>

fun forEachIndex :: "(nat \<Rightarrow> 's \<Rightarrow> 's option) \<Rightarrow> nat list \<Rightarrow> 's \<Rightarrow> 's option" where
  "forEachIndex f [] s = Some s"
| "forEachIndex f (i # is) s = (case f i s of None \<Rightarrow> None | Some s' \<Rightarrow> forEachIndex f is s')"

text \<open>\<^verbatim>\<open>agentMap.get(id)\<close>: the position in \<^verbatim>\<open>agents\<close> of the agent stored under the id.\<close>

definition agentIndexById :: "SimEngine \<Rightarrow> nat \<Rightarrow> nat option" where
  "agentIndexById s i =
     find (\<lambda>k. agent_id (agents s ! k) = i) (rev [0..<length (agents s)])"

definition agentById :: "SimEngine \<Rightarrow> nat \<Rightarrow> Agent option" where
  "agentById s i = map_option (\<lambda>k. agents s ! k) (agentIndexById s i)"

subsection \<open>Path planning for an agent\<close>

definition nearestExit :: "Vec2 \<Rightarrow> Exit list \<Rightarrow> Exit" where
  "nearestExit p pool =
     fst (foldl (\<lambda>(best, bestD) ex.
                   let d = v2_dist2 p (exit_x ex, exit_y ex)
                   in if d < bestD then (ex, d) else (best, bestD))
                (hd pool, v2_dist2 p (exit_x (hd pool), exit_y (hd pool))) pool)"

definition nearestExitPos :: "SimEngine \<Rightarrow> Agent \<Rightarrow> Vec2 \<times> Agent" where
  "nearestExitPos s a =
     (if exits (layout s) = [] then ((width (layout s) / 2, height (layout s) / 2), a)
      else
        let candidates = filter (\<lambda>ex. exit_id ex \<notin> blockedExits s) (exits (layout s));
            pool = (if candidates \<noteq> [] then candidates else exits (layout s));
            best = nearestExit (pos_x a, pos_y a) pool
        in ((exit_x best, exit_y best), a\<lparr>targetExitId := Some (exit_id best)\<rparr>))"

definition pathGoal :: "SimEngine \<Rightarrow> Agent \<Rightarrow> Vec2 \<times> Agent" where
  "pathGoal s a =
     (if state a = seeking_attractor \<and> truthy (targetAttractorId a)
      then (case find (\<lambda>t. Some (att_id t) = targetAttractorId a) (attractors (layout s)) of
              Some att \<Rightarrow> ((att_x att, att_y att), a)
            | None \<Rightarrow> nearestExitPos s a)
      else nearestExitPos s a)"

definition computePath :: "SimEngine \<Rightarrow> Agent \<Rightarrow> Agent option" where
  "computePath s a =
     (case pathGoal s a of (goal, a1) \<Rightarrow>
        do {
          p \<leftarrow> astar (passable s) (pos_x a, pos_y a) goal ASTAR_CELL;
          Some (a1\<lparr>path := p, pathIndex := 0\<rparr>)
        })"

subsection \<open>Evacuation\<close>

definition leaveQueues :: "nat \<Rightarrow> (string \<Rightarrow> nat list option) \<Rightarrow> (string \<Rightarrow> nat list option)" where
  "leaveQueues i qs = (\<lambda>k. map_option (remove1 i) (qs k))"

definition evacuateAgent :: "nat \<Rightarrow> SimEngine \<Rightarrow> SimEngine option" where
  "evacuateAgent i s =
     (let a = agents s ! i in
      if state a = exited then Some s
      else if state a = at_attractor \<or> state a = seeking_attractor \<or> state a = queuing
      then
        (let s1 = s\<lparr>queues := leaveQueues (agent_id a) (queues s)\<rparr> in
         do {
           a1 \<leftarrow> computePath s1 (a\<lparr>state := evacuating, targetAttractorId := None\<rparr>);
           Some (s1\<lparr>agents := (agents s1)
                   [i := a1\<lparr>speed := speed a1 * panicSpeedMultiplier (cfg s1)\<rparr>]\<rparr>)
         })
      else Some (s\<lparr>agents := (agents s)[i := a\<lparr>speed := speed a * panicSpeedMultiplier (cfg s)\<rparr>]\<rparr>))"

definition triggerEvacuation :: "SimEngine \<Rightarrow> SimEngine option" where
  "triggerEvacuation s =
     forEachIndex evacuateAgent [0..<length (agents s)] (s\<lparr>isEvacuating := True\<rparr>)"

subsection \<open>Fire start and blocked exits\<close>

definition grid_set :: "'a grid \<Rightarrow> nat \<Rightarrow> nat \<Rightarrow> 'a \<Rightarrow> 'a grid" where
  "grid_set g r c v = g[r := (g ! r)[c := v]]"

definition startFire :: "real \<Rightarrow> real \<Rightarrow> SimEngine \<Rightarrow> SimEngine option" where
  "startFire wx wy s =
     (let c = \<lfloor>wx\<rfloor>; r = \<lfloor>wy\<rfloor> in
      if r \<ge> 0 \<and> r < int (fireRows s) \<and> c \<ge> 0 \<and> c < int (fireCols s) \<and> cellAt (passable s) r c
      then
        (let s1 = (if \<not> cellAt (fireGrid s) r c
                   then s\<lparr>fireGrid := grid_set (fireGrid s) (nat r) (nat c) True,
                          fireCellCount := fireCellCount s + 1\<rparr>
                   else s);
             s2 = (if fireStartTime s1 < 0 then s1\<lparr>fireStartTime := simTime s1\<rparr> else s1)
         in if \<not> isEvacuating s2 then triggerEvacuation s2 else Some s2)
      else Some s)"

definition rerouteAgent :: "nat \<Rightarrow> SimEngine \<Rightarrow> SimEngine option" where
  "rerouteAgent i s =
     (let a = agents s ! i in
      if (state a = seeking_exit \<or> state a = evacuating) \<and> truthy (targetExitId a)
         \<and> the (targetExitId a) \<in> blockedExits s
      then do {
             a1 \<leftarrow> computePath s (a\<lparr>targetExitId := None\<rparr>);
             Some (s\<lparr>agents := (agents s)[i := a1]\<rparr>)
           }
      else Some s)"

definition setBlockedExits :: "string set \<Rightarrow> SimEngine \<Rightarrow> SimEngine option" where
  "setBlockedExits ids s =
     forEachIndex rerouteAgent [0..<length (agents s)] (s\<lparr>blockedExits := ids\<rparr>)"

definition start :: "SimEngine \<Rightarrow> SimEngine" where
  "start s = s\<lparr>isRunning := True\<rparr>"

definition pause :: "SimEngine \<Rightarrow> SimEngine" where
  "pause s = s\<lparr>isRunning := False\<rparr>"

definition updateConfig :: "SimConfig \<Rightarrow> SimEngine \<Rightarrow> SimEngine" where
  "updateConfig c s = s\<lparr>cfg := c\<rparr>"

subsection \<open>Fire and smoke\<close>

text \<open>
  The fire, spread and smoke grids have \<^verbatim>\<open>fireRows\<close> rows of \<^verbatim>\<open>fireCols\<close> cells
  (\<^verbatim>\<open>clearFire\<close>). The loops below visit the cells in row-major order and read and
  write cells inside these bounds.
\<close>

definition gridCells :: "nat \<Rightarrow> nat \<Rightarrow> (nat \<times> nat) list" where
  "gridCells rows cols = List.product [0..<rows] [0..<cols]"

definition DIRS4 :: "(int \<times> int) list" where
  "DIRS4 = [(-1, 0), (1, 0), (0, -1), (0, 1)]"

definition inFireGrid :: "SimEngine \<Rightarrow> int \<Rightarrow> int \<Rightarrow> bool" where
  "inFireGrid s nr nc = (nr \<ge> 0 \<and> nr < int (fireRows s) \<and> nc \<ge> 0 \<and> nc < int (fireCols s))"

definition smokeInflow :: "SimEngine \<Rightarrow> real \<Rightarrow> nat \<Rightarrow> nat \<Rightarrow> real" where
  "smokeInflow s dt r c =
     foldl (\<lambda>inflow (dr, dc).
              let nr = int r + dr; nc = int c + dc in
              if inFireGrid s nr nc
              then inflow + smokeGrid s ! nat nr ! nat nc * SMOKE_DIFFUSE * dt
              else inflow)
           0 DIRS4"

definition smokeCell :: "SimEngine \<Rightarrow> real \<Rightarrow> nat \<Rightarrow> nat \<Rightarrow> real" where
  "smokeCell s dt r c =
     (if fireGrid s ! r ! c then 1.0
      else min 1 (smokeGrid s ! r ! c + smokeInflow s dt r c) * (1 - SMOKE_DECAY * dt))"

definition spreadSmoke :: "real \<Rightarrow> SimEngine \<Rightarrow> SimEngine" where
  "spreadSmoke dt s =
     (let nxt = foldl (\<lambda>g (r, c). grid_set g r c (smokeCell s dt r c)) (smokeGrid s)
                  (gridCells (fireRows s) (fireCols s))
      in s\<lparr>smokeGrid := nxt, hasSmoke := (\<exists>row \<in> set nxt. \<exists>v \<in> set row. v > 0.01)\<rparr>)"

text \<open>
  \<^verbatim>\<open>spreadFire\<close>: the accumulators are updated in place while the burning map is
  read; the cells that reach 1 are collected and lit after the scan.
\<close>

definition spreadFireDir ::
  "SimEngine \<Rightarrow> real \<Rightarrow> nat \<Rightarrow> nat \<Rightarrow> real grid \<times> (nat \<times> nat) list \<Rightarrow> int \<times> int
     \<Rightarrow> real grid \<times> (nat \<times> nat) list" where
  "spreadFireDir s dt r c acc d =
     (case acc of (sp, ignite) \<Rightarrow> case d of (dr, dc) \<Rightarrow>
        let nr = int r + dr; nc = int c + dc in
        if \<not> inFireGrid s nr nc then (sp, ignite)
        else if fireGrid s ! nat nr ! nat nc \<or> \<not> cellAt (passable s) nr nc then (sp, ignite)
        else
          let v = sp ! nat nr ! nat nc + dt * FIRE_SPREAD_RATE in
          if v \<ge> 1 then (grid_set sp (nat nr) (nat nc) 0, ignite @ [(nat nr, nat nc)])
          else (grid_set sp (nat nr) (nat nc) v, ignite))"

definition spreadFireCell ::
  "SimEngine \<Rightarrow> real \<Rightarrow> real grid \<times> (nat \<times> nat) list \<Rightarrow> nat \<times> nat
     \<Rightarrow> real grid \<times> (nat \<times> nat) list" where
  "spreadFireCell s dt acc rc =
     (case rc of (r, c) \<Rightarrow>
        if \<not> fireGrid s ! r ! c then acc else foldl (spreadFireDir s dt r c) acc DIRS4)"

definition igniteCell :: "SimEngine \<Rightarrow> nat \<times> nat \<Rightarrow> SimEngine" where
  "igniteCell s rc =
     s\<lparr>fireGrid := grid_set (fireGrid s) (fst rc) (snd rc) True,
       fireCellCount := fireCellCount s + 1\<rparr>"

definition spreadFire :: "real \<Rightarrow> SimEngine \<Rightarrow> SimEngine" where
  "spreadFire dt s =
     (case foldl (spreadFireCell s dt) (fireSpread s, []) (gridCells (fireRows s) (fireCols s)) of
        (sp, ignite) \<Rightarrow> foldl igniteCell (s\<lparr>fireSpread := sp\<rparr>) ignite)"

subsection \<open>Firefighters\<close>

definition spawnFirefighter :: "SimEngine \<Rightarrow> nat \<Rightarrow> SimEngine" where
  "spawnFirefighter s i =
     (let ent = entrances (layout s) ! (i mod length (entrances (layout s)));
          u = rand s (rngPos s)
      in s\<lparr>firefighters := firefighters s @
              [\<lparr>ff_id = ffNextId s,
                ff_x = ent_x ent + (u - 0.5) * ent_width ent * 0.5,
                ff_y = ent_y ent, ff_vx = 0, ff_vy = 0, ff_path = [], ff_pathIndex = 0,
                targetCell = None, extinguishTimer = 0\<rparr>],
            ffNextId := Suc (ffNextId s), rngPos := Suc (rngPos s)\<rparr>)"

definition spawnFirefighters :: "SimEngine \<Rightarrow> SimEngine" where
  "spawnFirefighters s =
     (if entrances (layout s) = [] then s else foldl spawnFirefighter s [0..<FF_COUNT])"

definition findNearestFireCell :: "SimEngine \<Rightarrow> real \<Rightarrow> real \<Rightarrow> (int \<times> int) option" where
  "findNearestFireCell s x y =
     fst (foldl (\<lambda>(best, bestD2) (r, c).
                   if \<not> fireGrid s ! r ! c then (best, bestD2)
                   else
                     let d2 = (x - (real c + 0.5))\<^sup>2 + (y - (real r + 0.5))\<^sup>2 in
                     if (case bestD2 of None \<Rightarrow> True | Some b \<Rightarrow> d2 < b)
                     then (Some (int r, int c), Some d2) else (best, bestD2))
                (None, None) (gridCells (fireRows s) (fireCols s)))"

text \<open>The water of one firefighter: the target cell and its eight neighbours.\<close>

definition neighbours8 :: "(int \<times> int) list" where
  "neighbours8 = [(-1, -1), (-1, 0), (-1, 1), (0, -1), (0, 1), (1, -1), (1, 0), (1, 1)]"

definition suppressNeighbour :: "int \<Rightarrow> int \<Rightarrow> SimEngine \<Rightarrow> int \<times> int \<Rightarrow> SimEngine" where
  "suppressNeighbour r c s d =
     (let nr = r + fst d; nc = c + snd d in
      if \<not> inFireGrid s nr nc then s
      else
        let s1 = (if fireGrid s ! nat nr ! nat nc \<and> fireSpread s ! nat nr ! nat nc < 0.6
                  then s\<lparr>fireGrid := grid_set (fireGrid s) (nat nr) (nat nc) False,
                         fireCellCount := fireCellCount s - 1\<rparr>
                  else s)
        in s1\<lparr>fireSpread := grid_set (fireSpread s1) (nat nr) (nat nc) 0\<rparr>)"

definition extinguish :: "int \<Rightarrow> int \<Rightarrow> SimEngine \<Rightarrow> SimEngine" where
  "extinguish r c s =
     (let s1 = (if cellAt (fireGrid s) r c
                then s\<lparr>fireGrid := grid_set (fireGrid s) (nat r) (nat c) False,
                       fireCellCount := fireCellCount s - 1,
                       fireSpread := grid_set (fireSpread s) (nat r) (nat c) 0\<rparr>
                else s)
      in foldl (suppressNeighbour r c) s1 neighbours8)"

definition pushOut :: "Rect \<Rightarrow> real \<Rightarrow> real \<times> real \<times> real \<times> real \<Rightarrow> real \<times> real \<times> real \<times> real" where
  "pushOut wr R p =
     (case p of (x, y, vx, vy) \<Rightarrow>
        if x + R > rect_x wr \<and> x - R < rect_x wr + rect_w wr \<and>
           y + R > rect_y wr \<and> y - R < rect_y wr + rect_h wr
        then
          let oL = (x + R) - rect_x wr; oR = (rect_x wr + rect_w wr) - (x - R);
              oT = (y + R) - rect_y wr; oB = (rect_y wr + rect_h wr) - (y - R);
              m = min (min (min oL oR) oT) oB
          in if m = oL then (x - oL, y, min 0 vx, vy)
             else if m = oR then (x + oR, y, max 0 vx, vy)
             else if m = oT then (x, y - oT, vx, min 0 vy)
             else (x, y + oB, vx, max 0 vy)
        else p)"

definition pushOutWalls :: "Wall list \<Rightarrow> real \<Rightarrow> real \<times> real \<times> real \<times> real \<Rightarrow> real \<times> real \<times> real \<times> real" where
  "pushOutWalls ws R p = foldl (\<lambda>q wall. pushOut (rect wall) R q) p ws"

definition moveFirefighter :: "SimEngine \<Rightarrow> real \<Rightarrow> Firefighter \<Rightarrow> Firefighter" where
  "moveFirefighter s dt ff =
     (let wp = ff_path ff ! ff_pathIndex ff;
          dx = fst wp - ff_x ff; dy = snd wp - ff_y ff;
          d = sqrt (dx * dx + dy * dy);
          ff1 = (if d < 0.6 then ff\<lparr>ff_pathIndex := Suc (ff_pathIndex ff)\<rparr>
                 else
                   let ax = ((dx / d) * FF_SPEED - ff_vx ff) / 0.3;
                       ay = ((dy / d) * FF_SPEED - ff_vy ff) / 0.3;
                       vx = ff_vx ff + ax * dt; vy = ff_vy ff + ay * dt;
                       spd = sqrt (vx\<^sup>2 + vy\<^sup>2)
                   in if spd > FF_SPEED
                      then ff\<lparr>ff_vx := vx * (FF_SPEED / spd), ff_vy := vy * (FF_SPEED / spd)\<rparr>
                      else ff\<lparr>ff_vx := vx, ff_vy := vy\<rparr>);
          x = v2_clamp (ff_x ff1 + ff_vx ff1 * dt) 0.5 (width (layout s) - 0.5);
          y = v2_clamp (ff_y ff1 + ff_vy ff1 * dt) 0.5 (height (layout s) - 0.5)
      in case pushOutWalls (walls (layout s)) 0.3 (x, y, ff_vx ff1, ff_vy ff1) of
           (x', y', vx', vy') \<Rightarrow> ff1\<lparr>ff_x := x', ff_y := y', ff_vx := vx', ff_vy := vy'\<rparr>)"

definition setFirefighter :: "nat \<Rightarrow> Firefighter \<Rightarrow> SimEngine \<Rightarrow> SimEngine" where
  "setFirefighter i ff s = s\<lparr>firefighters := (firefighters s)[i := ff]\<rparr>"

definition tickFirefighter :: "real \<Rightarrow> nat \<Rightarrow> SimEngine \<Rightarrow> SimEngine option" where
  "tickFirefighter dt i s =
     (let ff = firefighters s ! i in
      if extinguishTimer ff > 0 then
        (let ff1 = ff\<lparr>extinguishTimer := extinguishTimer ff - dt,
                      ff_vx := ff_vx ff * 0.8, ff_vy := ff_vy ff * 0.8\<rparr>
         in if extinguishTimer ff1 \<le> 0 \<and> targetCell ff1 \<noteq> None
            then (case the (targetCell ff1) of (r, c) \<Rightarrow>
                    Some (setFirefighter i (ff1\<lparr>targetCell := None\<rparr>) (extinguish r c s)))
            else Some (setFirefighter i ff1 s))
      else
        (let tgt = (case targetCell ff of None \<Rightarrow> (-1, -1) | Some t \<Rightarrow> t) in
         do {
           r \<leftarrow> (if targetCell ff = None \<or> \<not> cellAt (fireGrid s) (fst tgt) (snd tgt)
                 then (case findNearestFireCell s (ff_x ff) (ff_y ff) of
                         None \<Rightarrow> Some (ff\<lparr>ff_vx := ff_vx ff * 0.9, ff_vy := ff_vy ff * 0.9\<rparr>, False)
                       | Some cell \<Rightarrow>
                           do {
                             p \<leftarrow> astar (passable s) (ff_x ff, ff_y ff)
                                    (real_of_int (snd cell) + 0.5, real_of_int (fst cell) + 0.5)
                                    ASTAR_CELL;
                             Some (ff\<lparr>targetCell := Some cell, ff_path := p, ff_pathIndex := 0\<rparr>,
                                   True)
                           })
                 else Some (ff, True));
           (case r of (ff1, go) \<Rightarrow>
              if \<not> go then Some (setFirefighter i ff1 s)
              else if ff_pathIndex ff1 \<ge> length (ff_path ff1)
              then Some (setFirefighter i
                     ((if targetCell ff1 \<noteq> None
                       then ff1\<lparr>extinguishTimer := FF_EXTINGUISH_T\<rparr> else ff1)
                      \<lparr>ff_vx := ff_vx ff1 * 0.5, ff_vy := ff_vy ff1 * 0.5\<rparr>) s)
              else Some (setFirefighter i (moveFirefighter s dt ff1) s))
         }))"

definition tickFirefighters :: "real \<Rightarrow> SimEngine \<Rightarrow> SimEngine option" where
  "tickFirefighters dt s =
     (let s1 = (if \<not> firefightersSpawned s \<and> fireStartTime s \<ge> 0
                   \<and> simTime s - fireStartTime s \<ge> FF_RESPONSE_DELAY
                then (spawnFirefighters s)\<lparr>firefightersSpawned := True\<rparr>
                else s)
      in forEachIndex (tickFirefighter dt) [0..<length (firefighters s1)] s1)"

subsection \<open>Spawning\<close>

text \<open>
  \<^verbatim>\<open>Math.random()\<close> returns the next value of the ambient sequence. The rejection
  loops of \<^verbatim>\<open>randNormal\<close> (\<^verbatim>\<open>while (u === 0) u = Math.random()\<close>) do not return
  on a sequence that is zero from some point on.
\<close>

partial_function (option) drawNonZero :: "(nat \<Rightarrow> real) \<Rightarrow> nat \<Rightarrow> (real \<times> nat) option" where
  "drawNonZero rnd k = (if rnd k = 0 then drawNonZero rnd (Suc k) else Some (rnd k, Suc k))"

definition randNormal :: "real \<Rightarrow> real \<Rightarrow> (nat \<Rightarrow> real) \<Rightarrow> nat \<Rightarrow> (real \<times> nat) option" where
  "randNormal mean std rnd k =
     do {
       (u, k1) \<leftarrow> drawNonZero rnd k;
       (v, k2) \<leftarrow> drawNonZero rnd k1;
       Some (mean + std * sqrt (-2 * ln u) * cos (2 * pi * v), k2)
     }"

definition erf_approx :: "real \<Rightarrow> real" where
  "erf_approx x0 =
     (let a1 = 0.254829592; a2 = -0.284496736; a3 = 1.421413741;
          a4 = -1.453152027; a5 = 1.061405429; p = 0.3275911;
          sign = (if x0 < 0 then -1 else 1);
          x = \<bar>x0\<bar>;
          t = 1 / (1 + p * x);
          y = 1 - (((((a5 * t + a4) * t) + a3) * t + a2) * t + a1) * t * exp (- x * x)
      in sign * y)"

text \<open>
  \<^verbatim>\<open>gaussianCDF\<close>; with \<^verbatim>\<open>sigma = 0\<close> the quotient is an IEEE infinity (the result
  is 0 or 1) or \<^verbatim>\<open>NaN\<close> (no agent is spawned, as for 0).
\<close>

definition gaussianCDF :: "real \<Rightarrow> real \<Rightarrow> real \<Rightarrow> real" where
  "gaussianCDF t mean sigma =
     (if sigma = 0 then (if t > mean then 1 else 0)
      else 0.5 * (1 + erf_approx ((t - mean) / (sigma * sqrt 2))))"

definition attractorFull :: "SimEngine \<Rightarrow> Attractor \<Rightarrow> bool" where
  "attractorFull s att =
     (queueEnabled (cfg s) \<and> att_queueEnabled att \<and>
      real (length (case queues s (att_id att) of None \<Rightarrow> [] | Some q \<Rightarrow> q))
        + real_of_int (case queueServiced s (att_id att) of None \<Rightarrow> 0 | Some n \<Rightarrow> n)
        \<ge> queueCapacity att)"

fun pickFrom :: "SimEngine \<Rightarrow> real \<Rightarrow> real \<Rightarrow> Attractor list \<Rightarrow> string option" where
  "pickFrom s r acc [] = None"
| "pickFrom s r acc (att # atts) =
     (let acc' = acc + weight att in
      if r \<le> acc' then (if attractorFull s att then pickFrom s r acc' atts else Some (att_id att))
      else pickFrom s r acc' atts)"

definition pickAttractor :: "SimEngine \<Rightarrow> string option \<times> SimEngine" where
  "pickAttractor s =
     (if attractors (layout s) = [] then (None, s)
      else if isEvacuating s then (None, s)
      else
        let totalWeight = foldl (\<lambda>t a. t + weight a) 0 (attractors (layout s)) in
        if totalWeight = 0 then (None, s)
        else (pickFrom s (rand s (rngPos s) * totalWeight) 0 (attractors (layout s)),
              s\<lparr>rngPos := Suc (rngPos s)\<rparr>))"

text \<open>
  \<^verbatim>\<open>spawnOneAgent\<close>. The draws come in the order of the source: entrance, \<^verbatim>\<open>x\<close>,
  \<^verbatim>\<open>y\<close>, the speed, the attractor, the radius. An entrance index outside the array
  (a draw outside \<open>[0, 1)\<close>) makes \<^verbatim>\<open>entrance.x\<close> throw.
\<close>

definition spawnOneAgent :: "SimEngine \<Rightarrow> SimEngine option" where
  "spawnOneAgent s =
     (let n = length (entrances (layout s));
          k = rngPos s;
          ei = \<lfloor>rand s k * real n\<rfloor>
      in if ei < 0 \<or> ei \<ge> int n then None
         else
           let entrance = entrances (layout s) ! nat ei;
               x = ent_x entrance + (rand s (k + 1) - 0.5) * ent_width entrance * 0.8;
               y = ent_y entrance + (rand s (k + 2) - 0.5) * 0.5
           in do {
                (nv, k3) \<leftarrow> randNormal (speedMean (cfg s)) ((speedMax (cfg s) - speedMin (cfg s)) / 4)
                             (rand s) (k + 3);
                (case pickAttractor (s\<lparr>rngPos := k3\<rparr>) of (target, s1) \<Rightarrow>
                   let agent =
                         \<lparr>agent_id = nextId s1, pos_x = x, pos_y = y, vel_x = 0, vel_y = 0,
                          radius = 0.22 + rand s1 (rngPos s1) * 0.06,
                          speed = v2_clamp nv (speedMin (cfg s)) (speedMax (cfg s)),
                          state = (if truthy target then seeking_attractor else seeking_exit),
                          targetAttractorId = target, targetExitId = None,
                          path = [], pathIndex = 0, spawnTime = simTime s1, exitTime = -1,
                          atAttractorUntil = -1, stuckTimer = 0\<rparr>;
                       s2 = s1\<lparr>nextId := Suc (nextId s1), rngPos := Suc (rngPos s1)\<rparr>
                   in do {
                        agent1 \<leftarrow> computePath s2 agent;
                        Some (s2\<lparr>agents := agents s2 @ [agent1],
                                 spawnedCount := Suc (spawnedCount s2)\<rparr>)
                      })
              })"

fun spawnLoop :: "nat \<Rightarrow> SimEngine \<Rightarrow> SimEngine option" where
  "spawnLoop 0 s = Some s"
| "spawnLoop (Suc n) s =
     (if real (spawnedCount s) < cfg_N (cfg s)
      then (case spawnOneAgent s of None \<Rightarrow> None | Some s' \<Rightarrow> spawnLoop n s')
      else Some s)"

definition targetFraction :: "SimEngine \<Rightarrow> real" where
  "targetFraction s =
     (let durationSec = arrivalDuration (cfg s) * 60 in
      case arrivalMode (cfg s) of
        Burst \<Rightarrow> (if simTime s < 5 then 1 else 1)
      | Linear \<Rightarrow> (if durationSec = 0 then (if simTime s > 0 then 1 else 0)
                   else min 1 (simTime s / durationSec))
      | Gaussian \<Rightarrow> gaussianCDF (simTime s) (durationSec * 0.5) (durationSec * 0.2))"

definition spawnAgents :: "real \<Rightarrow> SimEngine \<Rightarrow> SimEngine option" where
  "spawnAgents dt s =
     (if real (spawnedCount s) \<ge> cfg_N (cfg s) \<or> entrances (layout s) = [] then Some s
      else
        let targetCount = \<lfloor>targetFraction s * cfg_N (cfg s)\<rfloor>;
            toSpawn = max 0 (targetCount - int (spawnedCount s))
        in spawnLoop (nat toSpawn) s)"

subsection \<open>The spatial hash (utils/spatialHash)\<close>

definition hashKey :: "int \<Rightarrow> int \<Rightarrow> int" where
  "hashKey cx cy = cx * 100003 + cy"

definition cellOf :: "SimEngine \<Rightarrow> real \<Rightarrow> int" where
  "cellOf s v = \<lfloor>v / hashCellSize s\<rfloor>"

definition hashInsert :: "SimEngine \<Rightarrow> Agent \<Rightarrow> SimEngine" where
  "hashInsert s a =
     (if state a \<noteq> exited
      then (let k = hashKey (cellOf s (pos_x a)) (cellOf s (pos_y a))
            in s\<lparr>hashCells := (hashCells s)(k := hashCells s k @ [agent_id a])\<rparr>)
      else s)"

definition rebuildHash :: "SimEngine \<Rightarrow> SimEngine" where
  "rebuildHash s = foldl hashInsert (s\<lparr>hashCells := (\<lambda>_. [])\<rparr>) (agents s)"

text \<open>
  \<^verbatim>\<open>query\<close>. With a cell size of 0 the bounds of the scan are \<^verbatim>\<open>NaN\<close> and the scan
  visits no bucket.
\<close>

definition hashQuery :: "SimEngine \<Rightarrow> real \<Rightarrow> real \<Rightarrow> real \<Rightarrow> nat list" where
  "hashQuery s x y rad =
     (if hashCellSize s = 0 then []
      else
        let r = \<lceil>rad / hashCellSize s\<rceil> in
        concat (map (\<lambda>cx. concat (map (\<lambda>cy. hashCells s (hashKey cx cy))
                                      [cellOf s y - r..cellOf s y + r]))
                    [cellOf s x - r..cellOf s x + r]))"

subsection \<open>One agent, one tick\<close>

definition setAgent :: "nat \<Rightarrow> Agent \<Rightarrow> SimEngine \<Rightarrow> SimEngine" where
  "setAgent i a s = s\<lparr>agents := (agents s)[i := a]\<rparr>"

definition currentWaypoint :: "Agent \<Rightarrow> Vec2 option" where
  "currentWaypoint a = (if pathIndex a \<ge> length (path a) then None else Some (path a ! pathIndex a))"

definition smokeFactor :: "SimEngine \<Rightarrow> Agent \<Rightarrow> real" where
  "smokeFactor s a =
     (if smokeGrid s \<noteq> [] then
        (let sr = \<lfloor>pos_y a\<rfloor>; sc = \<lfloor>pos_x a\<rfloor> in
         if inFireGrid s sr sc then
           (let sm = smokeGrid s ! nat sr ! nat sc in
            if sm > 0.15 then max 0.35 (1 - sm * 0.65) else 1)
         else 1)
      else 1)"

definition agentRepulsion :: "SimEngine \<Rightarrow> Agent \<Rightarrow> real \<times> real \<Rightarrow> nat \<Rightarrow> real \<times> real" where
  "agentRepulsion s a f nid =
     (if nid = agent_id a then f
      else case agentById s nid of
        None \<Rightarrow> f
      | Some nb \<Rightarrow>
          if state nb = exited then f
          else
            let ddx = pos_x a - pos_x nb; ddy = pos_y a - pos_y nb;
                d = sqrt (ddx * ddx + ddy * ddy);
                minDist = radius a + radius nb
            in if d < 1 / 10 ^ 6 then f
               else
                 let overlap = minDist - d in
                 if overlap > - personalSpace (cfg s) * 2
                 then (let strength = A_AGENT * avoidanceStrength (cfg s) * exp (overlap / B_AGENT)
                       in (fst f + strength * (ddx / d), snd f + strength * (ddy / d)))
                 else f)"

definition closestPointOnRect :: "real \<Rightarrow> real \<Rightarrow> Rect \<Rightarrow> real \<times> real \<times> real" where
  "closestPointOnRect px py r =
     (let cx = max (rect_x r) (min (rect_x r + rect_w r) px);
          cy = max (rect_y r) (min (rect_y r + rect_h r) py)
      in (cx, cy, (px - cx)\<^sup>2 + (py - cy)\<^sup>2))"

definition wallRepulsion :: "Agent \<Rightarrow> real \<times> real \<Rightarrow> Wall \<Rightarrow> real \<times> real" where
  "wallRepulsion a f wall =
     (case closestPointOnRect (pos_x a) (pos_y a) (rect wall) of (cx, cy, d2) \<Rightarrow>
        let d = sqrt d2 in
        if d < 1.5 \<and> d > 1 / 10 ^ 6
        then (let strength = A_WALL * exp ((radius a - d) / B_WALL)
              in (fst f + strength * (pos_x a - cx) / d, snd f + strength * (pos_y a - cy) / d))
        else f)"

definition fireRepulsion :: "SimEngine \<Rightarrow> Agent \<Rightarrow> real \<times> real \<Rightarrow> int \<times> int \<Rightarrow> real \<times> real" where
  "fireRepulsion s a f d =
     (let nr = \<lfloor>pos_y a\<rfloor> + fst d; nc = \<lfloor>pos_x a\<rfloor> + snd d in
      if \<not> inFireGrid s nr nc then f
      else if \<not> fireGrid s ! nat nr ! nat nc then f
      else
        let cx = real_of_int nc + 0.5; cy = real_of_int nr + 0.5;
            ddx = pos_x a - cx; ddy = pos_y a - cy;
            dd = sqrt (ddx * ddx + ddy * ddy)
        in if dd < 0.01 then f
           else (let str = FIRE_REPULSION * exp (- dd / FIRE_REP_DECAY)
                 in (fst f + (ddx / dd) * str, snd f + (ddy / dd) * str)))"

definition fireWindow :: "(int \<times> int) list" where
  "fireWindow = List.product [- FIRE_SEARCH_R..FIRE_SEARCH_R] [- FIRE_SEARCH_R..FIRE_SEARCH_R]"

text \<open>The sum of the four force terms on an agent heading for the waypoint offset \<open>(dx, dy)\<close>.\<close>

definition socialForce :: "SimEngine \<Rightarrow> Agent \<Rightarrow> real \<Rightarrow> real \<Rightarrow> real \<Rightarrow> real \<times> real" where
  "socialForce s a dx dy distToWP =
     (let desiredDir = (if distToWP > 1 / 10 ^ 6 then (dx / distToWP, dy / distToWP) else (0, 0));
          sf = smokeFactor s a;
          desiredVx = fst desiredDir * speed a * sf;
          desiredVy = snd desiredDir * speed a * sf;
          f0 = ((desiredVx - vel_x a) / TAU, (desiredVy - vel_y a) / TAU);
          f1 = foldl (agentRepulsion s a) f0
                 (hashQuery s (pos_x a) (pos_y a) (radius a * 6 + 1.5));
          f2 = foldl (wallRepulsion a) f1 (walls (layout s))
      in if fireRows s > 0 then foldl (fireRepulsion s a) f2 fireWindow else f2)"

text \<open>\<^verbatim>\<open>resolveWallCollisions\<close>: the push-out of \<open>pushOut\<close> with the agent's radius.\<close>

definition resolveWallCollisions :: "SimEngine \<Rightarrow> Agent \<Rightarrow> Agent" where
  "resolveWallCollisions s a =
     (case pushOutWalls (walls (layout s)) (radius a) (pos_x a, pos_y a, vel_x a, vel_y a) of
        (x, y, vx, vy) \<Rightarrow> a\<lparr>pos_x := x, pos_y := y, vel_x := vx, vel_y := vy\<rparr>)"

definition reachedExit :: "SimEngine \<Rightarrow> Agent \<Rightarrow> bool" where
  "reachedExit s a =
     (\<exists>ex \<in> set (exits (layout s)).
        exit_id ex \<notin> blockedExits s \<and>
        v2_dist (pos_x a, pos_y a) (exit_x ex, exit_y ex) < exit_width ex / 2 + radius a + 0.3)"

definition checkExitArrival :: "nat \<Rightarrow> SimEngine \<Rightarrow> SimEngine" where
  "checkExitArrival i s =
     (let a = agents s ! i in
      if state a \<noteq> seeking_exit \<and> state a \<noteq> evacuating then s
      else if reachedExit s a
      then (setAgent i (a\<lparr>state := exited, exitTime := simTime s\<rparr>) s)
             \<lparr>egressTimes := egressTimes s @ [simTime s - spawnTime a]\<rparr>
      else s)"

definition onAgentReachedTarget :: "nat \<Rightarrow> SimEngine \<Rightarrow> SimEngine option" where
  "onAgentReachedTarget i s =
     (let a = agents s ! i in
      if state a = seeking_attractor \<and> truthy (targetAttractorId a)
      then (case find (\<lambda>t. Some (att_id t) = targetAttractorId a) (attractors (layout s)) of
              None \<Rightarrow> do { a1 \<leftarrow> computePath s (a\<lparr>state := seeking_exit\<rparr>); Some (setAgent i a1 s) }
            | Some att \<Rightarrow>
                if queueEnabled (cfg s) \<and> att_queueEnabled att
                then
                  (let q = (case queues s (att_id att) of None \<Rightarrow> [] | Some q \<Rightarrow> q);
                       q' = (if agent_id a \<in> set q then q else q @ [agent_id a])
                   in Some (setAgent i (a\<lparr>state := queuing\<rparr>)
                              (s\<lparr>queues := (queues s)(att_id att \<mapsto> q')\<rparr>)))
                else
                  Some (setAgent i
                          (a\<lparr>state := at_attractor,
                             atAttractorUntil := simTime s + serviceTime att\<rparr>)
                          (s\<lparr>queueServiced := (queueServiced s)
                                (att_id att \<mapsto>
                                   (case queueServiced s (att_id att) of None \<Rightarrow> 0 | Some n \<Rightarrow> n) + 1)\<rparr>)))
      else do { a1 \<leftarrow> computePath s (a\<lparr>state := seeking_exit\<rparr>); Some (setAgent i a1 s) })"

text \<open>
  The integration step: the new velocity with its speed clamp, the new position with its
  clamp to the venue and the wall push-out; then the stuck timer and the arrival check.
  \<open>moveAgent\<close> also returns the speed before the clamp, which the stuck timer reads.
\<close>

definition moveAgent :: "SimEngine \<Rightarrow> real \<Rightarrow> real \<times> real \<Rightarrow> Agent \<Rightarrow> Agent \<times> real" where
  "moveAgent s dt f a =
     (let vx = vel_x a + fst f * dt;
          vy = vel_y a + snd f * dt;
          spd = sqrt (vx\<^sup>2 + vy\<^sup>2);
          maxSpeed = speed a * 1.5;
          vx1 = (if spd > maxSpeed then (vx / spd) * maxSpeed else vx);
          vy1 = (if spd > maxSpeed then (vy / spd) * maxSpeed else vy);
          a1 = a\<lparr>vel_x := vx1, vel_y := vy1,
                 pos_x := v2_clamp (pos_x a + vx1 * dt) (radius a) (width (layout s) - radius a),
                 pos_y := v2_clamp (pos_y a + vy1 * dt) (radius a) (height (layout s) - radius a)\<rparr>
      in (resolveWallCollisions s a1, spd))"

definition stuckDetect :: "SimEngine \<Rightarrow> real \<Rightarrow> real \<Rightarrow> Agent \<Rightarrow> Agent option" where
  "stuckDetect s dt spd a =
     (if spd < 0.05
      then (if stuckTimer a + dt > STUCK_TIME
            then computePath s (a\<lparr>stuckTimer := 0\<rparr>)
            else Some (a\<lparr>stuckTimer := stuckTimer a + dt\<rparr>))
      else Some (a\<lparr>stuckTimer := 0\<rparr>))"

definition integrate :: "nat \<Rightarrow> real \<Rightarrow> real \<times> real \<Rightarrow> SimEngine \<Rightarrow> SimEngine option" where
  "integrate i dt f s =
     (case moveAgent s dt f (agents s ! i) of (a2, spd) \<Rightarrow>
        do {
          a3 \<leftarrow> stuckDetect s dt spd a2;
          Some (checkExitArrival i (setAgent i a3 s))
        })"

definition updateAgent :: "real \<Rightarrow> nat \<Rightarrow> SimEngine \<Rightarrow> SimEngine option" where
  "updateAgent dt i s =
     (let a = agents s ! i in
      if state a = at_attractor then
        (if simTime s \<ge> atAttractorUntil a
         then
           (let s1 = (if truthy (targetAttractorId a)
                      then s\<lparr>queueServiced := (queueServiced s)
                               (the (targetAttractorId a) \<mapsto>
                                  max 0 ((case queueServiced s (the (targetAttractorId a)) of
                                            None \<Rightarrow> 1 | Some n \<Rightarrow> n) - 1))\<rparr>
                      else s)
            in do {
                 a1 \<leftarrow> computePath s1 (a\<lparr>state := seeking_exit, targetAttractorId := None\<rparr>);
                 Some (setAgent i a1 s1)
               })
         else Some s)
      else if state a = queuing then
        Some (setAgent i (a\<lparr>vel_x := vel_x a * 0.8, vel_y := vel_y a * 0.8\<rparr>) s)
      else
        (case currentWaypoint a of
           None \<Rightarrow>
             do {
               a1 \<leftarrow> computePath s
                      (a\<lparr>state := (if isEvacuating s then evacuating else seeking_exit)\<rparr>);
               Some (setAgent i a1 s)
             }
         | Some wp \<Rightarrow>
             let dx = fst wp - pos_x a; dy = snd wp - pos_y a;
                 distToWP = sqrt (dx * dx + dy * dy);
                 a1 = (if distToWP < 0.6 then a\<lparr>pathIndex := Suc (pathIndex a)\<rparr> else a);
                 s1 = setAgent i a1 s
             in if distToWP < 0.6 \<and> pathIndex a1 \<ge> length (path a1)
                then onAgentReachedTarget i s1
                else integrate i dt (socialForce s1 a1 dx dy distToWP) s1))"

subsection \<open>Queues\<close>

definition serveQueue :: "SimEngine \<Rightarrow> Attractor \<Rightarrow> SimEngine" where
  "serveQueue s att =
     (if \<not> att_queueEnabled att \<or> \<not> queueEnabled (cfg s) then s
      else case queues s (att_id att) of
        None \<Rightarrow> s
      | Some [] \<Rightarrow> s
      | Some (nid # q) \<Rightarrow>
          let served = (case queueServiced s (att_id att) of None \<Rightarrow> 0 | Some n \<Rightarrow> n) in
          if served < 1
          then (let s1 = s\<lparr>queues := (queues s)(att_id att \<mapsto> q)\<rparr> in
                case agentIndexById s1 nid of
                  None \<Rightarrow> s1
                | Some k \<Rightarrow>
                    (setAgent k ((agents s1 ! k)
                        \<lparr>state := at_attractor,
                          atAttractorUntil := simTime s1 + serviceTime att\<rparr>) s1)
                      \<lparr>queueServiced := (queueServiced s1)(att_id att \<mapsto> served + 1)\<rparr>)
          else s)"

definition processQueues :: "real \<Rightarrow> SimEngine \<Rightarrow> SimEngine" where
  "processQueues dt s = foldl serveQueue s (attractors (layout s))"

subsection \<open>Density\<close>

text \<open>
  \<^verbatim>\<open>computeDensityGrid\<close> allocates \<^verbatim>\<open>rows\<close> arrays of \<^verbatim>\<open>cols\<close> zeros. The call
  throws (an invalid array length) when \<^verbatim>\<open>rows\<close> is infinite, which is a cell size of
  0 in a venue of positive height, and when a row of negative length is asked for.
\<close>

definition densityAdd :: "SimEngine \<Rightarrow> nat \<Rightarrow> nat \<Rightarrow> real grid \<Rightarrow> Agent \<Rightarrow> real grid" where
  "densityAdd s rows cols g a =
     (if state a = exited then g
      else
        let c = \<lfloor>pos_x a / cellSize (cfg s)\<rfloor>; r = \<lfloor>pos_y a / cellSize (cfg s)\<rfloor> in
        if r \<ge> 0 \<and> r < int rows \<and> c \<ge> 0 \<and> c < int cols
        then grid_set g (nat r) (nat c)
               (g ! nat r ! nat c + 1 / (cellSize (cfg s) * cellSize (cfg s)))
        else g)"

definition computeDensityGrid :: "SimEngine \<Rightarrow> real grid option" where
  "computeDensityGrid s =
     (let cs = cellSize (cfg s);
          colsI = \<lceil>width (layout s) / cs\<rceil>;
          rowsI = \<lceil>height (layout s) / cs\<rceil>
      in if cs = 0 \<and> height (layout s) > 0 then None
         else if cs \<noteq> 0 \<and> rowsI > 0 \<and> colsI < 0 then None
         else
           let rows = (if cs = 0 then 0 else nat rowsI); cols = nat colsI in
           Some (foldl (densityAdd s rows cols) (replicate rows (replicate cols 0)) (agents s)))"

definition maxOfGrid :: "real grid \<Rightarrow> real" where
  "maxOfGrid g = foldl (\<lambda>m row. foldl (\<lambda>m v. if v > m then v else m) m row) 0 g"

subsection \<open>The tick\<close>

definition updateAgents :: "real \<Rightarrow> SimEngine \<Rightarrow> SimEngine option" where
  "updateAgents dt s =
     forEachIndex (\<lambda>i s. if state (agents s ! i) = exited then Some s else updateAgent dt i s)
       [0..<length (agents s)] s"

definition accumulate :: "real \<Rightarrow> real \<Rightarrow> SimEngine \<Rightarrow> SimEngine" where
  "accumulate dt maxDensity s =
     (let s1 = (if maxDensity > peakDensity s then s\<lparr>peakDensity := maxDensity\<rparr> else s);
          s2 = (if maxDensity > densityWarning (cfg s)
                then s1\<lparr>timeAboveWarning := timeAboveWarning s1 + dt\<rparr> else s1);
          s3 = (if maxDensity > densityDanger (cfg s)
                then s2\<lparr>timeAboveDanger := timeAboveDanger s2 + dt\<rparr> else s2)
      in s3\<lparr>simTime := simTime s3 + dt\<rparr>)"

definition fireStep :: "real \<Rightarrow> SimEngine \<Rightarrow> SimEngine" where
  "fireStep dt s =
     (if fireCellCount s > 0 then spreadSmoke dt (spreadFire dt s)
      else if hasSmoke s then spreadSmoke dt s
      else s)"

definition tick :: "real \<Rightarrow> SimEngine \<Rightarrow> SimEngine option" where
  "tick dt0 s =
     (if \<not> isRunning s then Some s
      else
        let dt = min dt0 0.05 in
        do {
          s1 \<leftarrow> (if evacuationEnabled (cfg s) \<and> \<not> isEvacuating s
                     \<and> simTime s \<ge> evacuationTime (cfg s) * 60
                 then triggerEvacuation s else Some s);
          s3 \<leftarrow> tickFirefighters dt (fireStep dt s1);
          s4 \<leftarrow> spawnAgents dt s3;
          s6 \<leftarrow> updateAgents dt (rebuildHash s4);
          let s7 = processQueues dt s6;
          grid \<leftarrow> computeDensityGrid s7;
          Some (accumulate dt (maxOfGrid grid) s7)
        })"

subsection \<open>Metrics\<close>

record Metrics =
  m_simTime :: real
  activeAgents :: nat
  exitedAgents :: nat
  m_peakDensity :: real
  currentMaxDensity :: real
  m_timeAboveWarning :: real
  m_timeAboveDanger :: real
  avgEgressTime :: real
  p95EgressTime :: real
  queueLengths :: "string \<Rightarrow> nat option"
  maxQueueLengths :: "string \<Rightarrow> nat option"

definition percentile :: "real list \<Rightarrow> real \<Rightarrow> real" where
  "percentile xs p =
     (if xs = [] then 0
      else xs ! nat (max 0 (\<lceil>(p / 100) * real (length xs)\<rceil> - 1)))"

definition getMetrics :: "SimEngine \<Rightarrow> Metrics option" where
  "getMetrics s =
     do {
       grid \<leftarrow> computeDensityGrid s;
       let srt = sort (egressTimes s);
       Some \<lparr>m_simTime = simTime s,
             activeAgents = length (filter (\<lambda>a. state a \<noteq> exited) (agents s)),
             exitedAgents = length (egressTimes s),
             m_peakDensity = peakDensity s,
             currentMaxDensity = maxOfGrid grid,
             m_timeAboveWarning = timeAboveWarning s,
             m_timeAboveDanger = timeAboveDanger s,
             avgEgressTime = (if srt \<noteq> [] then foldl (+) 0 srt / real (length srt) else 0),
             p95EgressTime = percentile srt 95,
             queueLengths = (\<lambda>k. map_option length (queues s k)),
             maxQueueLengths = (\<lambda>k. map_option length (queues s k))\<rparr>
     }"

subsection \<open>Construction and reset\<close>

definition markWall :: "nat \<Rightarrow> nat \<Rightarrow> real \<Rightarrow> bool grid \<Rightarrow> Rect \<Rightarrow> bool grid" where
  "markWall rows cols cs g wl =
     (let c0 = max 0 \<lfloor>rect_x wl / cs\<rfloor>;
          c1 = min (int cols - 1) \<lfloor>(rect_x wl + rect_w wl) / cs\<rfloor>;
          r0 = max 0 \<lfloor>rect_y wl / cs\<rfloor>;
          r1 = min (int rows - 1) \<lfloor>(rect_y wl + rect_h wl) / cs\<rfloor>
      in foldl (\<lambda>g (r, c). grid_set g (nat r) (nat c) False) g (List.product [r0..r1] [c0..c1]))"

definition buildPassableGrid :: "real \<Rightarrow> real \<Rightarrow> Rect list \<Rightarrow> real \<Rightarrow> bool grid" where
  "buildPassableGrid venueW venueH ws cs =
     (let cols = nat \<lceil>venueW / cs\<rceil>; rows = nat \<lceil>venueH / cs\<rceil>
      in foldl (markWall rows cols cs) (replicate rows (replicate cols True)) ws)"

definition clearFire :: "SimEngine \<Rightarrow> SimEngine" where
  "clearFire s =
     s\<lparr>fireGrid := replicate (fireRows s) (replicate (fireCols s) False),
       fireSpread := replicate (fireRows s) (replicate (fireCols s) 0),
       smokeGrid := replicate (fireRows s) (replicate (fireCols s) 0),
       fireCellCount := 0, hasSmoke := False\<rparr>"

definition rebuild :: "SimEngine \<Rightarrow> SimEngine" where
  "rebuild s =
     (let pg = buildPassableGrid (width (layout s)) (height (layout s))
                 (map rect (walls (layout s))) ASTAR_CELL;
          s1 = clearFire (s\<lparr>passable := pg, fireRows := length pg,
                            fireCols := (if pg = [] then 0 else length (pg ! 0))\<rparr>);
          n = length (entrances (layout s))
      in s1\<lparr>entranceWeights := (if n > 0 then map (\<lambda>_. 1 / real n) (entrances (layout s)) else []),
            queues := (\<lambda>k. if k \<in> att_id ` set (attractors (layout s)) then Some [] else None),
            queueServiced := (\<lambda>k. if k \<in> att_id ` set (attractors (layout s)) then Some 0 else None)\<rparr>)"

definition updateLayout :: "VenueLayout \<Rightarrow> SimEngine \<Rightarrow> SimEngine" where
  "updateLayout l s = rebuild (s\<lparr>layout := l\<rparr>)"

definition reset :: "SimEngine \<Rightarrow> SimEngine" where
  "reset s =
     (let s1 = s\<lparr>agents := [], simTime := 0, isRunning := False, isEvacuating := False,
                 peakDensity := 0, timeAboveWarning := 0, timeAboveDanger := 0,
                 egressTimes := [], spawnedCount := 0,
                 queues := Map.empty, queueServiced := Map.empty, blockedExits := {},
                 nextId := 0, totalToSpawn := cfg_N (cfg s)\<rparr>
      in (clearFire (rebuild s1))
           \<lparr>firefighters := [], firefightersSpawned := False, fireStartTime := -1, ffNextId := 0\<rparr>)"

text \<open>
  \<^verbatim>\<open>new SimEngine(layout, cfg)\<close>. The module counters and the ambient generator are
  what the program has made of them so far.
\<close>

definition newSimEngine ::
  "VenueLayout \<Rightarrow> SimConfig \<Rightarrow> nat \<Rightarrow> nat \<Rightarrow> (nat \<Rightarrow> real) \<Rightarrow> nat \<Rightarrow> SimEngine" where
  "newSimEngine l c nid ffid rnd k =
     rebuild
       \<lparr>layout = l, cfg = c, agents = [], simTime = 0, isRunning = False, isEvacuating = False,
        passable = [], hashCellSize = personalSpace c * 2, hashCells = (\<lambda>_. []),
        peakDensity = 0, timeAboveWarning = 0, timeAboveDanger = 0, egressTimes = [],
        queues = Map.empty, queueServiced = Map.empty,
        fireGrid = [], fireSpread = [], smokeGrid = [], fireCellCount = 0, hasSmoke = False,
        fireCols = 0, fireRows = 0, fireStartTime = -1, blockedExits = {},
        firefighters = [], firefightersSpawned = False, spawnedCount = 0, totalToSpawn = 0,
        entranceWeights = [], nextId = nid, ffNextId = ffid, rand = rnd, rngPos = k\<rparr>"

section \<open>The sweep driver\<close>

record SweepResult =
  sr_N :: real
  sr_peakDensity :: real
  sr_p95EgressTime :: real
  timeAboveWarningPct :: real
  passed :: bool

subsection \<open>Double precision for the loop counters\<close>

text \<open>
  The sweep driver counts in doubles: \<^verbatim>\<open>n += step\<close> and \<^verbatim>\<open>t += DT\<close> round after every
  addition, and the rounding decides how often the loops run (twenty additions of
  \<^verbatim>\<open>0.05\<close> give \<^verbatim>\<open>1.0000000000000002\<close>). \<open>dbl\<close> rounds a real to the nearest double, ties
  to the even mantissa; the exponent range is not bounded, so neither overflow nor
  subnormal numbers are modelled. The arithmetic of the sweep is rounded with it; the
  ticks themselves stay in exact arithmetic.
\<close>

definition roundEven :: "real \<Rightarrow> int" where
  "roundEven y =
     (let f = \<lfloor>y\<rfloor>; d = y - of_int f in
      if d < 1 / 2 then f else if 1 / 2 < d then f + 1 else if even f then f else f + 1)"

definition dbl :: "real \<Rightarrow> real" where
  "dbl x =
     (if x = 0 then 0
      else let e = \<lfloor>log 2 \<bar>x\<bar>\<rfloor> - 52
           in of_int (roundEven (x / 2 powr of_int e)) * 2 powr of_int e)"

text \<open>\<^verbatim>\<open>const DT = 0.05\<close>: the double nearest to \<open>0.05\<close>.\<close>

definition SWEEP_DT :: real where
  "SWEEP_DT = 3602879701896397 / 72057594037927936"

subsection \<open>The values of N\<close>

text \<open>
  \<^verbatim>\<open>for (let n = sweepMinN; n <= sweepMaxN; n += step) values.push(n)\<close>. The loop need
  not end (a step that is not positive, or one that is lost in the rounding); then the
  call does not return.
\<close>

partial_function (option) sweepValuesFrom :: "real \<Rightarrow> real \<Rightarrow> real \<Rightarrow> real list \<Rightarrow> real list option" where
  "sweepValuesFrom step mx n acc =
     (if n \<le> mx then sweepValuesFrom step mx (dbl (n + step)) (acc @ [n]) else Some acc)"

definition sweepValues :: "SimConfig \<Rightarrow> real list option" where
  "sweepValues c = sweepValuesFrom (sweepStep c) (sweepMaxN c) (sweepMinN c) []"

subsection \<open>One run\<close>

text \<open>
  \<^verbatim>\<open>for (let t = 0; t < simDuration; t += DT)\<close> with its early exit once every agent
  has left; \<open>breakAfter\<close> is \<^verbatim>\<open>evacuationSec + 60\<close>.
\<close>

partial_function (option) sweepRun :: "real \<Rightarrow> real \<Rightarrow> real \<Rightarrow> SimEngine \<Rightarrow> SimEngine option" where
  "sweepRun simDuration breakAfter t e =
     (if t < simDuration
      then (case tick SWEEP_DT e of
              None \<Rightarrow> None
            | Some e' \<Rightarrow>
                if t > breakAfter
                then (case getMetrics e' of
                        None \<Rightarrow> None
                      | Some m \<Rightarrow>
                          if activeAgents m = 0 then Some e'
                          else sweepRun simDuration breakAfter (dbl (t + SWEEP_DT)) e')
                else sweepRun simDuration breakAfter (dbl (t + SWEEP_DT)) e')
      else Some e)"

definition sweepConfig :: "SimConfig \<Rightarrow> real \<Rightarrow> SimConfig" where
  "sweepConfig baseCfg n =
     baseCfg\<lparr>cfg_N := n, evacuationEnabled := True,
             evacuationTime := dbl (arrivalDuration baseCfg + 2)\<rparr>"

definition sweepEngine :: "VenueLayout \<Rightarrow> SimConfig \<Rightarrow> real \<Rightarrow> SimEngine \<Rightarrow> SimEngine option" where
  "sweepEngine l baseCfg n prev =
     (let c = sweepConfig baseCfg n;
          engine = start (reset (newSimEngine l c (nextId prev) (ffNextId prev) (rand prev) (rngPos prev)));
          simDuration = dbl (dbl (arrivalDuration baseCfg + 10) * 60);
          evacuationSec = dbl (evacuationTime c * 60)
      in sweepRun simDuration (dbl (evacuationSec + 60)) 0 engine)"

definition sweepResult :: "SimConfig \<Rightarrow> real \<Rightarrow> SimEngine \<Rightarrow> SweepResult option" where
  "sweepResult baseCfg n e =
     do {
       m \<leftarrow> getMetrics e;
       let pct = (if simTime e > 0 then (m_timeAboveWarning m / simTime e) * 100 else 0);
       Some \<lparr>sr_N = n, sr_peakDensity = m_peakDensity m,
             sr_p95EgressTime = p95EgressTime m / 60,
             timeAboveWarningPct = pct,
             passed = (m_peakDensity m \<le> densityDanger baseCfg
                       \<and> p95EgressTime m / 60 \<le> egresTimeLimitMin baseCfg
                       \<and> pct \<le> warningTimeLimitPct baseCfg)\<rparr>
     }"

text \<open>
  The loop over the values of \<^verbatim>\<open>N\<close>; \<open>prev\<close> is the engine of the previous value, from
  which the next one inherits the module counters and the ambient generator.
\<close>

fun sweepLoop ::
  "VenueLayout \<Rightarrow> SimConfig \<Rightarrow> real list \<Rightarrow> SimEngine \<Rightarrow> (SweepResult \<times> SimEngine) list option" where
  "sweepLoop l baseCfg [] prev = Some []"
| "sweepLoop l baseCfg (n # ns) prev =
     do {
       e \<leftarrow> sweepEngine l baseCfg n prev;
       r \<leftarrow> sweepResult baseCfg n e;
       rest \<leftarrow> sweepLoop l baseCfg ns e;
       Some ((r, e) # rest)
     }"

text \<open>
  \<^verbatim>\<open>runSweep\<close>; \<open>env\<close> carries the module counters and the ambient generator at the
  time of the call. The results are paired with the engine each was read from.
\<close>

definition runSweepEngines ::
  "VenueLayout \<Rightarrow> SimConfig \<Rightarrow> SimEngine \<Rightarrow> (SweepResult \<times> SimEngine) list option" where
  "runSweepEngines l baseCfg env =
     do {
       vs \<leftarrow> sweepValues baseCfg;
       sweepLoop l baseCfg vs env
     }"

definition runSweep :: "VenueLayout \<Rightarrow> SimConfig \<Rightarrow> SimEngine \<Rightarrow> SweepResult list option" where
  "runSweep l baseCfg env = map_option (map fst) (runSweepEngines l baseCfg env)"

section \<open>Loops and frames\<close>

lemma forEachIndex_invariant:
  assumes "forEachIndex f js s = Some s'"
    and "Q s"
    and "\<And>i t t'. i \<in> set js \<Longrightarrow> Q t \<Longrightarrow> f i t = Some t' \<Longrightarrow> Q t'"
  shows "Q s'"
  using assms
proof (induction js arbitrary: s)
  case Nil
  then show ?case by simp
next
  case (Cons j js)
  from Cons.prems(1) obtain t where t: "f j s = Some t" and r: "forEachIndex f js t = Some s'"
    by (auto split: option.splits)
  have "Q t" using Cons.prems(3) [of j s t] Cons.prems(2) t by simp
  moreover have "Q u'" if "i \<in> set js" "Q u" "f i u = Some u'" for i u u'
    using Cons.prems(3) [of i u u'] that by simp
  ultimately show ?case using Cons.IH [OF r] by blast
qed

lemma foldl_invariant:
  assumes "Q s" and "\<And>t x. x \<in> set xs \<Longrightarrow> Q t \<Longrightarrow> Q (f t x)"
  shows "Q (foldl f s xs)"
  using assms by (induction xs arbitrary: s) simp_all

text \<open>
  What a phase of the tick leaves alone is stated by blanking the fields it may write:
  the agent side (agents, queues, egress log, spawn counters, hash) and the fire side
  (fire, spread and smoke grids, firefighters).
\<close>

definition blankAgents :: "SimEngine \<Rightarrow> SimEngine" where
  "blankAgents s =
     s\<lparr>agents := [], queues := Map.empty, queueServiced := Map.empty, egressTimes := [],
       isEvacuating := False, spawnedCount := 0, nextId := 0, rngPos := 0,
       hashCells := (\<lambda>_. [])\<rparr>"


lemma evacuateAgent_blank: "evacuateAgent i s = Some s' \<Longrightarrow> blankAgents s' = blankAgents s"
  by (auto simp add: evacuateAgent_def Let_def blankAgents_def split: if_splits bind_splits)

lemma triggerEvacuation_blank:
  assumes "triggerEvacuation s = Some s'"
  shows "blankAgents s' = blankAgents s"
proof -
  have "blankAgents s' = blankAgents (s\<lparr>isEvacuating := True\<rparr>)"
    using assms unfolding triggerEvacuation_def
    by (rule forEachIndex_invariant) (simp_all add: evacuateAgent_blank)
  then show ?thesis by (simp add: blankAgents_def)
qed

lemma spawnOneAgent_blank: "spawnOneAgent s = Some s' \<Longrightarrow> blankAgents s' = blankAgents s"
  by (auto simp add: spawnOneAgent_def pickAttractor_def Let_def blankAgents_def
      split: if_splits bind_splits prod.splits)

lemma spawnLoop_blank: "spawnLoop n s = Some s' \<Longrightarrow> blankAgents s' = blankAgents s"
proof (induction n arbitrary: s)
  case 0
  then show ?case by simp
next
  case (Suc n)
  then show ?case
    by (auto split: if_splits option.splits dest!: spawnOneAgent_blank)
qed

lemma spawnAgents_blank: "spawnAgents dt s = Some s' \<Longrightarrow> blankAgents s' = blankAgents s"
  by (auto simp add: spawnAgents_def Let_def split: if_splits dest: spawnLoop_blank)

lemma hashInsert_blank: "blankAgents (hashInsert s a) = blankAgents s"
  by (simp add: hashInsert_def blankAgents_def Let_def)

lemma rebuildHash_blank: "blankAgents (rebuildHash s) = blankAgents s"
proof -
  have "blankAgents (rebuildHash s) = blankAgents (s\<lparr>hashCells := (\<lambda>_. [])\<rparr>)"
    unfolding rebuildHash_def by (rule foldl_invariant) (simp_all add: hashInsert_blank)
  then show ?thesis by (simp add: blankAgents_def)
qed

lemma checkExitArrival_blank: "blankAgents (checkExitArrival i s) = blankAgents s"
  by (simp add: checkExitArrival_def setAgent_def blankAgents_def Let_def)

lemma onAgentReachedTarget_blank:
  "onAgentReachedTarget i s = Some s' \<Longrightarrow> blankAgents s' = blankAgents s"
  by (auto simp add: onAgentReachedTarget_def setAgent_def blankAgents_def Let_def
      split: if_splits bind_splits option.splits)

lemma integrate_blank: "integrate i dt f s = Some s' \<Longrightarrow> blankAgents s' = blankAgents s"
proof -
  assume "integrate i dt f s = Some s'"
  then obtain a3 where "s' = checkExitArrival i (setAgent i a3 s)"
    by (auto simp add: integrate_def split: prod.splits bind_splits)
  then show ?thesis by (simp add: checkExitArrival_blank) (simp add: setAgent_def blankAgents_def)
qed

lemma setAgent_blank: "blankAgents (setAgent i a s) = blankAgents s"
  by (simp add: setAgent_def blankAgents_def)

lemma queueServiced_blank: "blankAgents (s\<lparr>queueServiced := q\<rparr>) = blankAgents s"
  by (simp add: blankAgents_def)

lemma updateAgent_blank: "updateAgent dt i s = Some s' \<Longrightarrow> blankAgents s' = blankAgents s"
  unfolding updateAgent_def Let_def
  by (auto simp add: setAgent_blank queueServiced_blank
      split: if_splits bind_splits option.splits
      dest!: onAgentReachedTarget_blank integrate_blank)

lemma updateAgents_blank:
  assumes "updateAgents dt s = Some s'"
  shows "blankAgents s' = blankAgents s"
  using assms unfolding updateAgents_def
  by (rule forEachIndex_invariant) (auto split: if_splits dest: updateAgent_blank)

lemma serveQueue_blank: "blankAgents (serveQueue s att) = blankAgents s"
  by (simp add: serveQueue_def setAgent_def blankAgents_def Let_def split: option.splits list.splits)

lemma processQueues_blank: "blankAgents (processQueues dt s) = blankAgents s"
  unfolding processQueues_def by (rule foldl_invariant) (simp_all add: serveQueue_blank)











section \<open>Properties of the planner\<close>









subsection \<open>The planner returns\<close>

























text \<open>
  C4: the repair is meant to pick the passable cell of the 7 by 7 window that is nearest
  to the goal cell, but both loops stop at the first passable cell they meet (the
  \<^verbatim>\<open>!found\<close> conditions), so the cell chosen is the first one in row-major order. In
  the two-row venue below the goal cell \<open>(1, 2)\<close> is a wall; the cell \<open>(0, 2)\<close> is passable
  at squared distance 1, and the repair returns \<open>(0, 0)\<close>, at squared distance 5.
\<close>

definition walled :: "bool grid" where
  "walled = [[True, True, True, True, True], [True, False, False, False, True]]"

theorem repairGoal_first_not_nearest:
  "\<not> cellAt walled 1 2 \<and> cellAt walled 0 2
   \<and> repairGoal walled 2 5 (1, 2) = (0, 0)
   \<and> (0 - 1)\<^sup>2 + (2 - 2)\<^sup>2 < ((0 - 1)\<^sup>2 + (0 - 2)\<^sup>2 :: int)"
  by (simp add: walled_def repairGoal_def cellAt_def repairCell_def upto_rec1 Let_def)


section \<open>A small venue for concrete runs\<close>

text \<open>
  A one by one metre room whose entrance and exit are both at its centre, and a
  configuration for one participant arriving at once. The warning density is a parameter.
\<close>

definition demoLayout :: VenueLayout where
  "demoLayout = \<lparr>width = 1, height = 1, walls = [],
     entrances = [\<lparr>ent_id = ''in'', ent_x = 0.5, ent_y = 0.5, ent_width = 1\<rparr>],
     exits = [\<lparr>exit_id = ''out'', exit_x = 0.5, exit_y = 0.5, exit_width = 1, exit_capacity = 1\<rparr>],
     attractors = []\<rparr>"

definition demoCfg :: "real \<Rightarrow> SimConfig" where
  "demoCfg w = \<lparr>cfg_N = 1, arrivalMode = Burst, arrivalDuration = 1,
     speedMin = 1.3, speedMean = 1.3, speedMax = 1.3, personalSpace = 0.5,
     avoidanceStrength = 1, queueEnabled = True, evacuationEnabled = False,
     evacuationTime = 10, panicSpeedMultiplier = 1.5, densityWarning = w, densityDanger = 2,
     cellSize = 1, egresTimeLimitMin = 5, warningTimeLimitPct = 10,
     sweepStep = 1, sweepMinN = 1, sweepMaxN = 1\<rparr>"

definition demoEngine :: "real \<Rightarrow> (nat \<Rightarrow> real) \<Rightarrow> SimEngine" where
  "demoEngine w rnd = start (reset (newSimEngine demoLayout (demoCfg w) 0 0 rnd 0))"

lemma demoEngine_eq:
  "demoEngine w rnd =
     \<lparr>layout = demoLayout, cfg = demoCfg w, agents = [], simTime = 0, isRunning = True,
      isEvacuating = False, passable = [[True]], hashCellSize = 1, hashCells = (\<lambda>_. []),
      peakDensity = 0, timeAboveWarning = 0, timeAboveDanger = 0, egressTimes = [],
      queues = Map.empty, queueServiced = Map.empty,
      fireGrid = [[False]], fireSpread = [[0]], smokeGrid = [[0]], fireCellCount = 0,
      hasSmoke = False, fireCols = 1, fireRows = 1, fireStartTime = -1, blockedExits = {},
      firefighters = [], firefightersSpawned = False, spawnedCount = 0, totalToSpawn = 1,
      entranceWeights = [1], nextId = 0, ffNextId = 0, rand = rnd, rngPos = 0\<rparr>"
  by (simp add: demoEngine_def start_def reset_def newSimEngine_def rebuild_def clearFire_def
      buildPassableGrid_def ASTAR_CELL_def Let_def demoLayout_def demoCfg_def)

text \<open>The participant of the first tick, spawned at \<open>(x, 0.5)\<close> with radius \<open>r\<close>.\<close>

definition demoAgent :: "real \<Rightarrow> real \<Rightarrow> Agent" where
  "demoAgent x r =
     \<lparr>agent_id = 0, pos_x = x, pos_y = 1 / 2, vel_x = 0, vel_y = 0, radius = r,
      speed = 13 / 10, state = seeking_exit, targetAttractorId = None,
      targetExitId = Some ''out'', path = [(1 / 2, 1 / 2)], pathIndex = 0, spawnTime = 0,
      exitTime = - 1, atAttractorUntil = - 1, stuckTimer = 0\<rparr>"

definition demoAfter :: "real \<Rightarrow> (nat \<Rightarrow> real) \<Rightarrow> real \<Rightarrow> real \<Rightarrow> real \<Rightarrow> SimEngine" where
  "demoAfter w rnd x r tw =
     (demoEngine w rnd)
       \<lparr>agents := [demoAgent x r], simTime := 1 / 20, hashCells := (\<lambda>_. [])(0 := [0]),
        peakDensity := 1, timeAboveWarning := tw, spawnedCount := 1, nextId := 1, rngPos := 6\<rparr>"

lemma sqrt_less_pos: "0 < b \<Longrightarrow> (sqrt a < b) = (a < b\<^sup>2)"
  by (metis real_sqrt_less_iff real_sqrt_abs abs_of_pos)

lemma tick_demo_centre:
  "tick 0.05 (demoEngine 1 (\<lambda>_. 1 / 2)) = Some (demoAfter 1 (\<lambda>_. 1 / 2) (1 / 2) (1 / 4) 0)"
  apply (simp add: demoEngine_eq demoAfter_def demoAgent_def)
  apply (simp add: tick_def Let_def demoCfg_def tickFirefighters_def fireStep_def)
  apply (simp add: spawnAgents_def demoLayout_def targetFraction_def spawnOneAgent_def Let_def)
  apply (simp add: randNormal_def drawNonZero.simps pickAttractor_def v2_clamp_def truthy_def)
  apply (simp add: computePath_def pathGoal_def nearestExitPos_def nearestExit_def v2_dist2_def truthy_def)
  apply (simp add: astar_def toGrid_def cellAt_def repairGoal_def Let_def ASTAR_CELL_def)
  apply (simp add: rebuildHash_def hashInsert_def cellOf_def hashKey_def updateAgents_def updateAgent_def currentWaypoint_def Let_def setAgent_def)
  apply (simp add: onAgentReachedTarget_def truthy_def setAgent_def computePath_def pathGoal_def nearestExitPos_def nearestExit_def v2_dist2_def Let_def)
  apply (simp add: astar_def toGrid_def cellAt_def repairGoal_def Let_def ASTAR_CELL_def)
  apply (simp add: processQueues_def computeDensityGrid_def densityAdd_def grid_set_def maxOfGrid_def accumulate_def Let_def)
  done


section \<open>Fire start outside the grid\<close>

text \<open>
  C10: a call \<^verbatim>\<open>startFire(wx, wy)\<close> whose cell lies outside the fire grid, or is not
  passable, returns with the kernel state as it was.
\<close>

theorem startFire_outside_unchanged:
  assumes "\<not> (0 \<le> \<lfloor>wy\<rfloor> \<and> \<lfloor>wy\<rfloor> < int (fireRows s) \<and> 0 \<le> \<lfloor>wx\<rfloor> \<and> \<lfloor>wx\<rfloor> < int (fireCols s))
           \<or> \<not> cellAt (passable s) \<lfloor>wy\<rfloor> \<lfloor>wx\<rfloor>"
  shows "startFire wx wy s = Some s"
  using assms by (auto simp add: startFire_def Let_def)

theorem startFire_outside_unchanged_witness:
  "\<not> \<lfloor>5 :: real\<rfloor> < int (fireCols (demoEngine 1 (\<lambda>_. 1 / 2)))
   \<and> startFire 5 (1 / 2) (demoEngine 1 (\<lambda>_. 1 / 2)) = Some (demoEngine 1 (\<lambda>_. 1 / 2))"
  using startFire_outside_unchanged [of "1 / 2" "demoEngine 1 (\<lambda>_. 1 / 2)" 5]
  by (simp add: demoEngine_eq)

section \<open>Threshold dwell times\<close>

lemma tick_running_cases:
  assumes "tick dt0 s = Some s'" and "isRunning s"
  obtains dt s1 s3 s4 s6 g where
    "dt = min dt0 0.05"
    "(if evacuationEnabled (cfg s) \<and> \<not> isEvacuating s \<and> simTime s \<ge> evacuationTime (cfg s) * 60
      then triggerEvacuation s else Some s) = Some s1"
    "tickFirefighters dt (fireStep dt s1) = Some s3"
    "spawnAgents dt s3 = Some s4"
    "updateAgents dt (rebuildHash s4) = Some s6"
    "computeDensityGrid (processQueues dt s6) = Some g"
    "s' = accumulate dt (maxOfGrid g) (processQueues dt s6)"
  using assms unfolding tick_def Let_def
  by (auto split: bind_splits)

lemma evacuation_phase_blank:
  assumes "(if b then triggerEvacuation s else Some s) = Some s1"
  shows "blankAgents s1 = blankAgents s"
  using assms by (auto split: if_splits dest: triggerEvacuation_blank)

lemma blankAgents_fields:
  assumes "blankAgents s' = blankAgents s"
  shows "cfg s' = cfg s" "layout s' = layout s" "timeAboveWarning s' = timeAboveWarning s"
    "timeAboveDanger s' = timeAboveDanger s" "peakDensity s' = peakDensity s"
    "simTime s' = simTime s" "fireGrid s' = fireGrid s" "smokeGrid s' = smokeGrid s"
    "fireSpread s' = fireSpread s" "fireRows s' = fireRows s" "fireCols s' = fireCols s"
    "fireCellCount s' = fireCellCount s" "hasSmoke s' = hasSmoke s" "passable s' = passable s"
    "blockedExits s' = blockedExits s" "isRunning s' = isRunning s" "rand s' = rand s"
    "firefighters s' = firefighters s" "fireStartTime s' = fireStartTime s"
    "hashCellSize s' = hashCellSize s"
proof -
  have "\<And>f. f (blankAgents s') = f (blankAgents s)" using assms by simp
  note e = this
  show "cfg s' = cfg s" using e [of cfg] by (simp add: blankAgents_def)
  show "layout s' = layout s" using e [of layout] by (simp add: blankAgents_def)
  show "timeAboveWarning s' = timeAboveWarning s" using e [of timeAboveWarning] by (simp add: blankAgents_def)
  show "timeAboveDanger s' = timeAboveDanger s" using e [of timeAboveDanger] by (simp add: blankAgents_def)
  show "peakDensity s' = peakDensity s" using e [of peakDensity] by (simp add: blankAgents_def)
  show "simTime s' = simTime s" using e [of simTime] by (simp add: blankAgents_def)
  show "fireGrid s' = fireGrid s" using e [of fireGrid] by (simp add: blankAgents_def)
  show "smokeGrid s' = smokeGrid s" using e [of smokeGrid] by (simp add: blankAgents_def)
  show "fireSpread s' = fireSpread s" using e [of fireSpread] by (simp add: blankAgents_def)
  show "fireRows s' = fireRows s" using e [of fireRows] by (simp add: blankAgents_def)
  show "fireCols s' = fireCols s" using e [of fireCols] by (simp add: blankAgents_def)
  show "fireCellCount s' = fireCellCount s" using e [of fireCellCount] by (simp add: blankAgents_def)
  show "hasSmoke s' = hasSmoke s" using e [of hasSmoke] by (simp add: blankAgents_def)
  show "passable s' = passable s" using e [of passable] by (simp add: blankAgents_def)
  show "blockedExits s' = blockedExits s" using e [of blockedExits] by (simp add: blankAgents_def)
  show "isRunning s' = isRunning s" using e [of isRunning] by (simp add: blankAgents_def)
  show "rand s' = rand s" using e [of rand] by (simp add: blankAgents_def)
  show "firefighters s' = firefighters s" using e [of firefighters] by (simp add: blankAgents_def)
  show "fireStartTime s' = fireStartTime s" using e [of fireStartTime] by (simp add: blankAgents_def)
  show "hashCellSize s' = hashCellSize s" using e [of hashCellSize] by (simp add: blankAgents_def)
qed











section \<open>Smoke over burning cells\<close>

definition burning :: "SimEngine \<Rightarrow> nat \<Rightarrow> nat \<Rightarrow> bool" where
  "burning s r c = (r < fireRows s \<and> c < fireCols s \<and> fireGrid s ! r ! c)"

definition smokeShaped :: "SimEngine \<Rightarrow> bool" where
  "smokeShaped s =
     (length (smokeGrid s) = fireRows s \<and> (\<forall>row \<in> set (smokeGrid s). length row = fireCols s))"

lemma grid_set_nth:
  "grid_set g r c v ! r' ! c'
     = (if r' = r \<and> c' = c \<and> r < length g \<and> c < length (g ! r) then v else g ! r' ! c')"
proof (cases "r' = r")
  case False
  then show ?thesis by (simp add: grid_set_def)
next
  case True
  show ?thesis
  proof (cases "r < length g")
    case False
    then show ?thesis using True by (simp add: grid_set_def list_update_beyond)
  next
    case rl: True
    show ?thesis
    proof (cases "c' = c")
      case False
      then show ?thesis using True rl by (simp add: grid_set_def)
    next
      case cc: True
      show ?thesis
      proof (cases "c < length (g ! r)")
        case True
        then show ?thesis using \<open>r' = r\<close> rl cc by (simp add: grid_set_def)
      next
        case False
        then show ?thesis using \<open>r' = r\<close> rl cc by (simp add: grid_set_def list_update_beyond)
      qed
    qed
  qed
qed

lemma grid_set_length [simp]: "length (grid_set g r c v) = length g"
  by (simp add: grid_set_def)

lemma grid_set_row_length [simp]: "length (grid_set g r c v ! r') = length (g ! r')"
  by (cases "r' = r"; cases "r < length g") (simp_all add: grid_set_def list_update_beyond)

lemma foldl_grid_set_nth:
  assumes "r < length g" and "c < length (g ! r)"
  shows "foldl (\<lambda>g (r, c). grid_set g r c (f r c)) g cells ! r ! c
           = (if (r, c) \<in> set cells then f r c else g ! r ! c)"
  using assms
proof (induction cells arbitrary: g)
  case Nil
  then show ?case by simp
next
  case (Cons x cells)
  obtain r0 c0 where x: "x = (r0, c0)" by (cases x)
  define g1 where "g1 = grid_set g r0 c0 (f r0 c0)"
  have 1: "r < length g1" and 2: "c < length (g1 ! r)"
    using Cons.prems by (simp_all add: g1_def)
  have "foldl (\<lambda>g (r, c). grid_set g r c (f r c)) g1 cells ! r ! c
          = (if (r, c) \<in> set cells then f r c else g1 ! r ! c)"
    using 1 2 by (rule Cons.IH)
  moreover have "g1 ! r ! c = (if r = r0 \<and> c = c0 then f r0 c0 else g ! r ! c)"
    using Cons.prems by (auto simp add: g1_def grid_set_nth)
  ultimately show ?case by (auto simp add: x g1_def)
qed

lemma gridCells_mem: "(r, c) \<in> set (gridCells rows cols) \<longleftrightarrow> r < rows \<and> c < cols"
  by (auto simp add: gridCells_def)

lemma spreadSmoke_fire [simp]:
  "fireGrid (spreadSmoke dt s) = fireGrid s" "fireRows (spreadSmoke dt s) = fireRows s"
  "fireCols (spreadSmoke dt s) = fireCols s"
  by (simp_all add: spreadSmoke_def Let_def)

lemma spreadSmoke_pinned:
  assumes "smokeShaped s" and "burning s r c"
  shows "smokeGrid (spreadSmoke dt s) ! r ! c = 1"
proof -
  have r: "r < length (smokeGrid s)" using assms by (simp add: smokeShaped_def burning_def)
  then have "smokeGrid s ! r \<in> set (smokeGrid s)" by simp
  then have c: "c < length (smokeGrid s ! r)"
    using assms by (simp add: smokeShaped_def burning_def)
  have "smokeGrid (spreadSmoke dt s) ! r ! c
          = (if (r, c) \<in> set (gridCells (fireRows s) (fireCols s)) then smokeCell s dt r c
             else smokeGrid s ! r ! c)"
    using foldl_grid_set_nth [OF r c, of "smokeCell s dt"]
    by (simp add: spreadSmoke_def Let_def)
  then show ?thesis using assms(2) by (simp add: gridCells_mem burning_def smokeCell_def)
qed

lemma igniteCell_smoke:
  "smokeGrid (igniteCell s rc) = smokeGrid s \<and> fireRows (igniteCell s rc) = fireRows s
   \<and> fireCols (igniteCell s rc) = fireCols s"
  by (simp add: igniteCell_def)

lemma spreadFire_smoke:
  "smokeGrid (spreadFire dt s) = smokeGrid s \<and> fireRows (spreadFire dt s) = fireRows s
   \<and> fireCols (spreadFire dt s) = fireCols s"
proof -
  obtain sp ignite where
    e: "foldl (spreadFireCell s dt) (fireSpread s, []) (gridCells (fireRows s) (fireCols s)) = (sp, ignite)"
    by (cases "foldl (spreadFireCell s dt) (fireSpread s, []) (gridCells (fireRows s) (fireCols s))")
  define s0 where "s0 = s\<lparr>fireSpread := sp\<rparr>"
  have "smokeGrid (foldl igniteCell s0 ignite) = smokeGrid s0
        \<and> fireRows (foldl igniteCell s0 ignite) = fireRows s0
        \<and> fireCols (foldl igniteCell s0 ignite) = fireCols s0"
    by (rule foldl_invariant) (simp_all add: igniteCell_smoke)
  then show ?thesis by (simp add: spreadFire_def e s0_def)
qed

text \<open>After the fire and smoke step every burning cell has smoke 1.\<close>

definition firePinned :: "SimEngine \<Rightarrow> bool" where
  "firePinned s = (\<forall>r c. burning s r c \<longrightarrow> smokeGrid s ! r ! c = 1)"

lemma fireStep_pinned:
  assumes "smokeShaped s" and "fireCellCount s > 0 \<or> (\<forall>r c. \<not> burning s r c)"
  shows "firePinned (fireStep dt s)"
proof (cases "fireCellCount s > 0")
  case True
  have sh: "smokeShaped (spreadFire dt s)"
    using assms(1) spreadFire_smoke [of dt s] by (simp add: smokeShaped_def)
  have "smokeGrid (spreadSmoke dt (spreadFire dt s)) ! r ! c = 1"
    if "burning (spreadSmoke dt (spreadFire dt s)) r c" for r c
  proof -
    from that have "burning (spreadFire dt s) r c" by (simp add: burning_def)
    with sh show ?thesis by (rule spreadSmoke_pinned)
  qed
  then show ?thesis using True by (simp add: fireStep_def firePinned_def)
next
  case False
  then have "\<forall>r c. \<not> burning s r c" using assms(2) by simp
  then have "\<forall>r c. \<not> burning (fireStep dt s) r c"
    using False by (simp add: fireStep_def burning_def)
  then show ?thesis by (simp add: firePinned_def)
qed

text \<open>Firefighters only put cells out, and leave the smoke alone.\<close>

definition fireShrinks :: "SimEngine \<Rightarrow> SimEngine \<Rightarrow> bool" where
  "fireShrinks s t =
     (smokeGrid t = smokeGrid s \<and> fireRows t = fireRows s \<and> fireCols t = fireCols s
      \<and> (\<forall>r c. fireGrid t ! r ! c \<longrightarrow> fireGrid s ! r ! c))"

lemma fireShrinks_refl: "fireShrinks s s"
  by (simp add: fireShrinks_def)

lemma fireShrinks_trans: "fireShrinks s t \<Longrightarrow> fireShrinks t u \<Longrightarrow> fireShrinks s u"
  by (simp add: fireShrinks_def)

lemma fireShrinks_pinned:
  assumes "fireShrinks s t" and "firePinned s"
  shows "firePinned t"
  using assms by (auto simp add: fireShrinks_def firePinned_def burning_def)

lemma suppressNeighbour_shrinks: "fireShrinks s (suppressNeighbour r c s d)"
  by (simp add: suppressNeighbour_def fireShrinks_def Let_def grid_set_nth)

lemma extinguish_shrinks: "fireShrinks s (extinguish r c s)"
proof -
  define s1 where "s1 = (if cellAt (fireGrid s) r c
                then s\<lparr>fireGrid := grid_set (fireGrid s) (nat r) (nat c) False,
                       fireCellCount := fireCellCount s - 1,
                       fireSpread := grid_set (fireSpread s) (nat r) (nat c) 0\<rparr>
                else s)"
  have 1: "fireShrinks s s1" by (simp add: s1_def fireShrinks_def grid_set_nth)
  have "fireShrinks s (foldl (suppressNeighbour r c) s1 neighbours8)"
    using 1
  proof (rule foldl_invariant)
    fix t x
    assume "fireShrinks s t"
    then show "fireShrinks s (suppressNeighbour r c t x)"
      using suppressNeighbour_shrinks [of t r c x] by (rule fireShrinks_trans)
  qed
  then show ?thesis by (simp add: extinguish_def Let_def s1_def)
qed

lemma setFirefighter_shrinks: "fireShrinks s t \<Longrightarrow> fireShrinks s (setFirefighter i ff t)"
  by (simp add: fireShrinks_def setFirefighter_def)

lemma spawnFirefighters_shrinks: "fireShrinks s (spawnFirefighters s)"
proof -
  have "fireShrinks s (foldl spawnFirefighter s [0..<FF_COUNT])"
    by (rule foldl_invariant)
       (simp_all add: fireShrinks_refl, simp add: fireShrinks_def spawnFirefighter_def Let_def)
  then show ?thesis by (simp add: spawnFirefighters_def fireShrinks_refl)
qed

lemma tickFirefighter_shrinks:
  assumes "tickFirefighter dt i s = Some s'"
  shows "fireShrinks s s'"
  using assms unfolding tickFirefighter_def Let_def
  by (auto intro!: setFirefighter_shrinks extinguish_shrinks fireShrinks_refl
      split: if_splits bind_splits option.splits prod.splits)

lemma tickFirefighters_shrinks:
  assumes "tickFirefighters dt s = Some s'"
  shows "fireShrinks s s'"
proof -
  define s1 where "s1 = (if \<not> firefightersSpawned s \<and> fireStartTime s \<ge> 0
                   \<and> simTime s - fireStartTime s \<ge> FF_RESPONSE_DELAY
                then (spawnFirefighters s)\<lparr>firefightersSpawned := True\<rparr>
                else s)"
  have 1: "fireShrinks s s1"
    using spawnFirefighters_shrinks [of s] by (auto simp add: s1_def fireShrinks_def)
  have l: "forEachIndex (tickFirefighter dt) [0..<length (firefighters s1)] s1 = Some s'"
    using assms by (simp add: tickFirefighters_def Let_def s1_def)
  show ?thesis
    using l 1
  proof (rule forEachIndex_invariant)
    fix i t t'
    assume "fireShrinks s t" and "tickFirefighter dt i t = Some t'"
    then show "fireShrinks s t'"
      using tickFirefighter_shrinks fireShrinks_trans by blast
  qed
qed

lemma firePinned_cong:
  assumes "fireGrid s' = fireGrid s" "smokeGrid s' = smokeGrid s" "fireRows s' = fireRows s"
    "fireCols s' = fireCols s"
  shows "firePinned s' = firePinned s"
  using assms by (simp add: firePinned_def burning_def)

lemma accumulate_fire:
  "fireGrid (accumulate dt m s) = fireGrid s" "smokeGrid (accumulate dt m s) = smokeGrid s"
  "fireRows (accumulate dt m s) = fireRows s" "fireCols (accumulate dt m s) = fireCols s"
  by (simp_all add: accumulate_def Let_def)

definition fireDemo :: SimEngine where
  "fireDemo = (demoEngine 1 (\<lambda>_. 1 / 2))
                \<lparr>fireGrid := [[True]], fireCellCount := 1, fireStartTime := 0, isEvacuating := True\<rparr>"

lemma startFire_demo: "startFire 0.5 0.5 (demoEngine 1 (\<lambda>_. 1 / 2)) = Some fireDemo"
  by (simp add: fireDemo_def demoEngine_eq startFire_def cellAt_def grid_set_def Let_def
      triggerEvacuation_def)

text \<open>
  C6: every burning cell should hold smoke 1 after every public operation, and the code
  says so itself (\<^verbatim>\<open>// Fire cells are always max smoke\<close> in \<^verbatim>\<open>spreadSmoke\<close>). The public
  operation \<^verbatim>\<open>startFire\<close> lights a cell and does not write the smoke grid. On the fresh
  engine of the small venue, \<^verbatim>\<open>startFire(0.5, 0.5)\<close> returns with the cell \<open>(0, 0)\<close>
  burning and its smoke still 0.
\<close>

theorem startFire_leaves_smoke:
  "startFire 0.5 0.5 (demoEngine 1 (\<lambda>_. 1 / 2)) = Some fireDemo
   \<and> burning fireDemo 0 0 \<and> smokeGrid fireDemo ! 0 ! 0 = 0"
  using startFire_demo by (simp add: burning_def fireDemo_def demoEngine_eq)

text \<open>
  The smoke step of the next running tick repairs the cell: after a tick of a running
  kernel whose smoke grid has the shape of the fire grid and whose count of burning
  cells is positive whenever a cell burns, every burning cell has smoke 1.
\<close>

lemma tick_fire_has_full_smoke:
  assumes "tick dt s = Some s'" and "isRunning s" and "smokeShaped s"
    and "fireCellCount s > 0 \<or> (\<forall>r c. \<not> burning s r c)"
  shows "\<forall>r c. burning s' r c \<longrightarrow> smokeGrid s' ! r ! c = 1"
proof -
  from assms(1,2) obtain d s1 s3 s4 s6 g where
    1: "(if evacuationEnabled (cfg s) \<and> \<not> isEvacuating s \<and> simTime s \<ge> evacuationTime (cfg s) * 60
      then triggerEvacuation s else Some s) = Some s1"
    and 3: "tickFirefighters d (fireStep d s1) = Some s3"
    and 4: "spawnAgents d s3 = Some s4"
    and 6: "updateAgents d (rebuildHash s4) = Some s6"
    and s': "s' = accumulate d (maxOfGrid g) (processQueues d s6)"
    by (rule tick_running_cases)
  define s7 where "s7 = processQueues d s6"
  have b1: "blankAgents s1 = blankAgents s" using 1 by (rule evacuation_phase_blank)
  have b4: "blankAgents s4 = blankAgents s3" using 4 by (rule spawnAgents_blank)
  have b6: "blankAgents s6 = blankAgents s4"
    using updateAgents_blank [OF 6] rebuildHash_blank [of s4] by simp
  have b7: "blankAgents s7 = blankAgents s6" unfolding s7_def by (rule processQueues_blank)
  note f1 = blankAgents_fields [OF b1]
  have "smokeShaped s1" using assms(3) f1 by (simp add: smokeShaped_def)
  moreover have "fireCellCount s1 > 0 \<or> (\<forall>r c. \<not> burning s1 r c)"
    using assms(4) f1 by (simp add: burning_def)
  ultimately have "firePinned (fireStep d s1)" by (rule fireStep_pinned)
  with tickFirefighters_shrinks [OF 3] have "firePinned s3" by (rule fireShrinks_pinned)
  then have "firePinned s4"
    using blankAgents_fields [OF b4] firePinned_cong [of s4 s3] by simp
  then have "firePinned s6"
    using blankAgents_fields [OF b6] firePinned_cong [of s6 s4] by simp
  then have "firePinned s7"
    using blankAgents_fields [OF b7] firePinned_cong [of s7 s6] by simp
  then have "firePinned s'"
    using firePinned_cong [of s' s7] by (simp add: s' s7_def accumulate_fire)
  then show ?thesis by (simp add: firePinned_def)
qed

definition fireDemoAfter :: SimEngine where
  "fireDemoAfter = (demoAfter 1 (\<lambda>_. 1 / 2) (1 / 2) (1 / 4) 0)
                     \<lparr>isEvacuating := True, fireGrid := [[True]], smokeGrid := [[1]],
                      fireCellCount := 1, hasSmoke := True, fireStartTime := 0\<rparr>"

lemma tick_fireDemo: "tick 0.05 fireDemo = Some fireDemoAfter"
  apply (simp add: fireDemo_def fireDemoAfter_def demoEngine_eq demoAfter_def demoAgent_def)
  apply (simp add: tick_def Let_def demoCfg_def tickFirefighters_def fireStep_def FF_RESPONSE_DELAY_def)
  apply (simp add: spreadFire_def spreadSmoke_def gridCells_def spreadFireCell_def spreadFireDir_def DIRS4_def inFireGrid_def smokeCell_def grid_set_def Let_def)
  apply (simp add: spawnAgents_def demoLayout_def targetFraction_def spawnOneAgent_def Let_def)
  apply (simp add: randNormal_def drawNonZero.simps pickAttractor_def v2_clamp_def truthy_def)
  apply (simp add: computePath_def pathGoal_def nearestExitPos_def nearestExit_def v2_dist2_def truthy_def)
  apply (simp add: astar_def toGrid_def cellAt_def repairGoal_def Let_def ASTAR_CELL_def)
  apply (simp add: rebuildHash_def hashInsert_def cellOf_def hashKey_def updateAgents_def updateAgent_def currentWaypoint_def Let_def setAgent_def)
  apply (simp add: onAgentReachedTarget_def truthy_def setAgent_def computePath_def pathGoal_def nearestExitPos_def nearestExit_def v2_dist2_def Let_def)
  apply (simp add: astar_def toGrid_def cellAt_def repairGoal_def Let_def ASTAR_CELL_def)
  apply (simp add: processQueues_def computeDensityGrid_def densityAdd_def grid_set_def maxOfGrid_def accumulate_def Let_def)
  done

lemma tick_fire_has_full_smoke_witness:
  "tick 0.05 fireDemo = Some fireDemoAfter \<and> isRunning fireDemo \<and> smokeShaped fireDemo
   \<and> fireCellCount fireDemo > 0
   \<and> burning fireDemoAfter 0 0 \<and> smokeGrid fireDemoAfter ! 0 ! 0 = 1"
proof -
  have r: "isRunning fireDemo" and sh: "smokeShaped fireDemo" and c: "fireCellCount fireDemo > 0"
    by (simp_all add: fireDemo_def demoEngine_eq smokeShaped_def)
  have b: "burning fireDemoAfter 0 0"
    by (simp add: burning_def fireDemoAfter_def demoAfter_def demoEngine_eq)
  from tick_fire_has_full_smoke [OF tick_fireDemo r sh] c b
  have "smokeGrid fireDemoAfter ! 0 ! 0 = 1" by blast
  then show ?thesis using tick_fireDemo r sh c b by simp
qed

section \<open>Agents and the venue bounds\<close>

text \<open>
  C8: at the end of every tick every agent that has not left should lie in
  \<open>[radius, width - radius] \<times> [radius, height - radius]\<close>, and \<^verbatim>\<open>updateAgent\<close> clamps the
  position it integrates to that box (\<^verbatim>\<open>// Clamp to venue bounds\<close>). The clamp is missed on
  two paths: \<^verbatim>\<open>spawnOneAgent\<close> places the agent up to \<open>0.4\<close> entrance widths beside the
  entrance without clamping, and \<^verbatim>\<open>updateAgent\<close> returns before the clamp when the agent
  is within 0.6 m of its last waypoint. In the small venue, with the draw for the
  \<open>x\<close> offset equal to 0, the participant is spawned at \<open>x = 0.1\<close> with radius \<open>0.25\<close>,
  reaches its only waypoint at once and ends its first tick where it was spawned.
\<close>

theorem spawn_ends_tick_outside_bounds:
  "tick 0.05 (demoEngine 1 ((\<lambda>_. 1 / 2)(1 := 0)))
     = Some (demoAfter 1 ((\<lambda>_. 1 / 2)(1 := 0)) (1 / 10) (1 / 4) 0)
   \<and> state (agents (demoAfter 1 ((\<lambda>_. 1 / 2)(1 := 0)) (1 / 10) (1 / 4) 0) ! 0) = seeking_exit
   \<and> pos_x (agents (demoAfter 1 ((\<lambda>_. 1 / 2)(1 := 0)) (1 / 10) (1 / 4) 0) ! 0) = 1 / 10
   \<and> radius (agents (demoAfter 1 ((\<lambda>_. 1 / 2)(1 := 0)) (1 / 10) (1 / 4) 0) ! 0) = 1 / 4"
  apply (simp add: demoEngine_eq demoAfter_def demoAgent_def)
  apply (simp add: tick_def Let_def demoCfg_def tickFirefighters_def fireStep_def)
  apply (simp add: spawnAgents_def demoLayout_def targetFraction_def spawnOneAgent_def Let_def)
  apply (simp add: randNormal_def drawNonZero.simps pickAttractor_def v2_clamp_def truthy_def)
  apply (simp add: computePath_def pathGoal_def nearestExitPos_def nearestExit_def v2_dist2_def truthy_def)
  apply (simp add: astar_def toGrid_def cellAt_def repairGoal_def Let_def ASTAR_CELL_def)
  apply (simp add: rebuildHash_def hashInsert_def cellOf_def hashKey_def updateAgents_def updateAgent_def currentWaypoint_def Let_def setAgent_def)
  apply (simp add: onAgentReachedTarget_def truthy_def setAgent_def computePath_def pathGoal_def nearestExitPos_def nearestExit_def v2_dist2_def Let_def)
  apply (simp add: astar_def toGrid_def cellAt_def repairGoal_def Let_def ASTAR_CELL_def)
  apply (simp add: processQueues_def computeDensityGrid_def densityAdd_def grid_set_def maxOfGrid_def accumulate_def Let_def)
  done

section \<open>The shared identifier counter\<close>

definition conserved :: "SimEngine \<Rightarrow> bool" where
  "conserved s =
     (length (filter (\<lambda>a. state a \<noteq> exited) (agents s)) + length (egressTimes s)
        = spawnedCount s)"

text \<open>
  A venue two metres wide whose door and bar are at the same point, with the exit next
  to them; three participants arrive over thirty seconds and the bar serves one at a
  time for twenty seconds. At second 30 the first participant is about to finish at the
  bar and the second waits in the queue.
\<close>

definition pubLayout :: VenueLayout where
  "pubLayout = \<lparr>width = 2, height = 1, walls = [],
     entrances = [\<lparr>ent_id = ''door'', ent_x = 0.95, ent_y = 0.5, ent_width = 1\<rparr>],
     exits = [\<lparr>exit_id = ''out'', exit_x = 1.05, exit_y = 0.5, exit_width = 1, exit_capacity = 1\<rparr>],
     attractors = [\<lparr>att_id = ''bar'', att_x = 0.95, att_y = 0.5, att_radius = 1, weight = 1,
                    label = ''Bar'', serviceTime = 20, att_queueEnabled = True, queueCapacity = 2\<rparr>]\<rparr>"

definition pubCfg :: SimConfig where
  "pubCfg = \<lparr>cfg_N = 3, arrivalMode = Linear, arrivalDuration = 0.5,
     speedMin = 1.3, speedMean = 1.3, speedMax = 1.3, personalSpace = 0.5,
     avoidanceStrength = 1, queueEnabled = True, evacuationEnabled = False,
     evacuationTime = 10, panicSpeedMultiplier = 1.5, densityWarning = 2, densityDanger = 4,
     cellSize = 1, egresTimeLimitMin = 5, warningTimeLimitPct = 10,
     sweepStep = 1, sweepMinN = 1, sweepMaxN = 1\<rparr>"

definition guest :: "nat \<Rightarrow> AgentState \<Rightarrow> real \<Rightarrow> real \<Rightarrow> Agent" where
  "guest i st born until =
     \<lparr>agent_id = i, pos_x = 0.95, pos_y = 0.5, vel_x = 0, vel_y = 0, radius = 0.25,
      speed = 1.3, state = st, targetAttractorId = Some ''bar'', targetExitId = None,
      path = [(0.95, 0.5)], pathIndex = 1, spawnTime = born, exitTime = - 1,
      atAttractorUntil = until, stuckTimer = 0\<rparr>"

definition pubEngine :: SimEngine where
  "pubEngine =
     (start (reset (newSimEngine pubLayout pubCfg 0 0 (\<lambda>_. 1 / 2) 0)))
       \<lparr>agents := [guest 0 at_attractor 10 30, guest 1 queuing 20 (- 1)], simTime := 30,
        queues := [''bar'' \<mapsto> [1]], queueServiced := [''bar'' \<mapsto> 1],
        spawnedCount := 2, nextId := 2, rngPos := 12\<rparr>"

lemma pubEngine_eq:
  "pubEngine =
     \<lparr>layout = pubLayout, cfg = pubCfg,
      agents = [guest 0 at_attractor 10 30, guest 1 queuing 20 (- 1)],
      simTime = 30, isRunning = True,
      isEvacuating = False, passable = [[True, True]], hashCellSize = 1, hashCells = (\<lambda>_. []),
      peakDensity = 0, timeAboveWarning = 0, timeAboveDanger = 0, egressTimes = [],
      queues = [''bar'' \<mapsto> [1]], queueServiced = [''bar'' \<mapsto> 1],
      fireGrid = [[False, False]], fireSpread = [[0, 0]], smokeGrid = [[0, 0]], fireCellCount = 0,
      hasSmoke = False, fireCols = 2, fireRows = 1, fireStartTime = -1, blockedExits = {},
      firefighters = [], firefightersSpawned = False, spawnedCount = 2, totalToSpawn = 3,
      entranceWeights = [1], nextId = 2, ffNextId = 0, rand = (\<lambda>_. 1 / 2), rngPos = 12\<rparr>"
  by (simp add: pubEngine_def start_def reset_def newSimEngine_def rebuild_def clearFire_def
      buildPassableGrid_def ASTAR_CELL_def Let_def pubLayout_def pubCfg_def numeral_2_eq_2)

lemma sqrt_sq_num [simp]:
  "sqrt (121 / 400) = 11 / 20" "sqrt (169 / 10000) = 13 / 100"
  "sqrt (34969 / 4000000) = 187 / 2000"
  by (rule real_sqrt_unique; simp add: power2_eq_square)+

lemma astar_pub:
  "astar [[True, True]] (19 / 20, 1 / 2) (21 / 20, 1 / 2) 1 = Some [(3 / 2, 1 / 2), (21 / 20, 1 / 2)]"
  apply (simp add: astar_def toGrid_def cellAt_def repairGoal_def Let_def astar_init_def)
  apply (simp add: astar_loop.simps popMin_def ASTAR_INF_def heuristic_def splice1_def
      expand_def dirs_def relax_def cellAt_def Let_def)
  apply (simp add: reconstruct.simps toWorld_def simplifyPath_def)
  done

definition pubAfter :: SimEngine where
  "pubAfter =
     pubEngine
       \<lparr>agents :=
          [(guest 0 seeking_exit 10 30)
             \<lparr>targetAttractorId := None, targetExitId := Some ''out'',
              path := [(3 / 2, 1 / 2), (21 / 20, 1 / 2)], pathIndex := 0\<rparr>,
           guest 1 queuing 20 (- 1),
           \<lparr>agent_id = 1, pos_x = 1913 / 2000, pos_y = 1 / 2, vel_x = 13 / 100, vel_y = 0,
            radius = 1 / 4, speed = 13 / 10, state = at_attractor, targetAttractorId = None,
            targetExitId = Some ''out'', path = [(3 / 2, 1 / 2), (21 / 20, 1 / 2)],
            pathIndex = 1, spawnTime = 30, exitTime = 30, atAttractorUntil = 50,
            stuckTimer = 0\<rparr>],
        simTime := 601 / 20, hashCells := (\<lambda>_. [])(0 := [0, 1, 1]), peakDensity := 3,
        timeAboveWarning := 1 / 20, egressTimes := [0], queues := [''bar'' \<mapsto> []],
        spawnedCount := 3, nextId := 2, rngPos := 19\<rparr>"

lemma tick_pub: "tick 0.05 (pubEngine\<lparr>nextId := 1\<rparr>) = Some pubAfter"
  apply (simp add: pubAfter_def pubEngine_eq)
  apply (simp add: tick_def Let_def pubCfg_def tickFirefighters_def fireStep_def)
  apply (simp add: spawnAgents_def pubLayout_def targetFraction_def spawnOneAgent_def Let_def)
  apply (simp add: randNormal_def drawNonZero.simps pickAttractor_def attractorFull_def v2_clamp_def truthy_def)
  apply (simp add: computePath_def pathGoal_def nearestExitPos_def nearestExit_def v2_dist2_def truthy_def ASTAR_CELL_def astar_pub)
  apply (simp add: rebuildHash_def hashInsert_def cellOf_def hashKey_def guest_def updateAgents_def)
  apply (simp add: updateAgent_def Let_def setAgent_def truthy_def)
  apply (simp add: computePath_def pathGoal_def nearestExitPos_def nearestExit_def v2_dist2_def truthy_def ASTAR_CELL_def astar_pub)
  apply (simp add: updateAgent_def currentWaypoint_def Let_def setAgent_def truthy_def power2_eq_square)
  apply (simp add: socialForce_def smokeFactor_def inFireGrid_def hashQuery_def cellOf_def hashKey_def
      upto_rec1 agentRepulsion_def agentById_def agentIndexById_def TAU_def Let_def)
  apply (simp add: fireWindow_def FIRE_SEARCH_R_def upto_rec1 fireRepulsion_def inFireGrid_def Let_def)
  apply (simp add: integrate_def moveAgent_def resolveWallCollisions_def pushOutWalls_def v2_clamp_def
      stuckDetect_def Let_def power2_eq_square)
  apply (simp add: checkExitArrival_def setAgent_def reachedExit_def v2_dist_def sqrt_less_pos Let_def power2_eq_square)
  apply (simp add: processQueues_def serveQueue_def agentIndexById_def setAgent_def Let_def)
  apply (simp add: computeDensityGrid_def densityAdd_def grid_set_def maxOfGrid_def accumulate_def Let_def numeral_2_eq_2)
  done

text \<open>
  C7: the count is kept as long as agent ids are distinct, and they are not when a second
  engine exists: \<^verbatim>\<open>_nextId\<close> is a variable of the module, shared by every
  \<^verbatim>\<open>SimEngine\<close>, and \<^verbatim>\<open>reset()\<close> of any instance sets it to 0 (the sweep driver
  builds and resets an engine for each \<^verbatim>\<open>N\<close> while the engine of the application
  lives). Below, another instance (the engine of the small venue, reset and ticked once)
  leaves the counter at 1. The engine of the pub, whose count is right, then spawns its
  third participant under the id 1 of the participant that waits in the queue; the
  newcomer leaves through the exit in the same tick, the bar becomes free, and the queue
  service looks up id 1, finds the newcomer and puts it at the bar. Three agents are
  active and one egress time is logged, for three agents spawned.
\<close>

theorem shared_id_counter_breaks_conservation:
  "conserved pubEngine
   \<and> tick 0.05 (demoEngine 1 (\<lambda>_. 1 / 2)) = Some (demoAfter 1 (\<lambda>_. 1 / 2) (1 / 2) (1 / 4) 0)
   \<and> tick 0.05 (pubEngine\<lparr>nextId := nextId (demoAfter 1 (\<lambda>_. 1 / 2) (1 / 2) (1 / 4) 0)\<rparr>)
       = Some pubAfter
   \<and> \<not> conserved pubAfter"
proof -
  have "nextId (demoAfter 1 (\<lambda>_. 1 / 2) (1 / 2) (1 / 4) 0) = 1" by (simp add: demoAfter_def)
  then show ?thesis
    using tick_pub tick_demo_centre
    by (simp add: conserved_def pubEngine_eq pubAfter_def guest_def)
qed

section \<open>Evacuation\<close>

lemma forEachIndex_append:
  "forEachIndex f (xs @ ys) s = (case forEachIndex f xs s of None \<Rightarrow> None | Some t \<Rightarrow> forEachIndex f ys t)"
  by (induction xs arbitrary: s) (auto split: option.splits)

text \<open>A loop over the positions \<open>0, \<dots>, n - 1\<close>, with an invariant indexed by the position.\<close>

lemma forEachIndex_upt:
  assumes "forEachIndex f [0..<n] s = Some s'"
    and "P 0 s"
    and "\<And>i t t'. i < n \<Longrightarrow> P i t \<Longrightarrow> f i t = Some t' \<Longrightarrow> P (Suc i) t'"
  shows "P n s'"
  using assms
proof (induction n arbitrary: s')
  case 0
  then show ?case by simp
next
  case (Suc n)
  from Suc.prems(1) obtain t where t: "forEachIndex f [0..<n] s = Some t" and l: "f n t = Some s'"
    by (auto simp add: forEachIndex_append split: option.splits)
  have "P n t"
    using t Suc.prems(2)
  proof (rule Suc.IH)
    fix i u u'
    assume "i < n" "P i u" "f i u = Some u'"
    then show "P (Suc i) u'" using Suc.prems(3) [of i u u'] by simp
  qed
  then show ?case using Suc.prems(3) [of n t s'] l by simp
qed

subsection \<open>The nearest open exit\<close>

definition exitPool :: "SimEngine \<Rightarrow> Exit list" where
  "exitPool s =
     (if filter (\<lambda>ex. exit_id ex \<notin> blockedExits s) (exits (layout s)) \<noteq> []
      then filter (\<lambda>ex. exit_id ex \<notin> blockedExits s) (exits (layout s))
      else exits (layout s))"




lemma exitPool_open:
  assumes "ex \<in> set (exits (layout s))" "exit_id ex \<notin> blockedExits s"
  shows "exitPool s = filter (\<lambda>ex. exit_id ex \<notin> blockedExits s) (exits (layout s))"
proof -
  have "ex \<in> set (filter (\<lambda>ex. exit_id ex \<notin> blockedExits s) (exits (layout s)))"
    using assms by simp
  then have "filter (\<lambda>ex. exit_id ex \<notin> blockedExits s) (exits (layout s)) \<noteq> []"
    by (metis empty_iff empty_set)
  then show ?thesis by (simp add: exitPool_def)
qed


subsection \<open>Path planning reads the layout, the blocked exits and the grid\<close>



subsection \<open>What the evacuation trigger does\<close>

definition diverted :: "AgentState \<Rightarrow> bool" where
  "diverted st = (st = at_attractor \<or> st = seeking_attractor \<or> st = queuing)"


definition queuesDistinct :: "SimEngine \<Rightarrow> bool" where
  "queuesDistinct s = (\<forall>k q. queues s k = Some q \<longrightarrow> distinct q)"

text \<open>
  The agent \<open>a'\<close> that the trigger makes of the agent \<open>a\<close>: an agent that has left is
  untouched; an agent on its way to, queuing at or being served at an attractor is
  evacuating, has no attractor target, follows the planner's path to the exit chosen by
  \<^verbatim>\<open>nearestExitPos\<close>, from waypoint 0, and has its speed multiplied; an agent that
  already heads for an exit has its speed multiplied and keeps the rest.
\<close>

definition evacuatedAs :: "SimEngine \<Rightarrow> Agent \<Rightarrow> Agent \<Rightarrow> bool" where
  "evacuatedAs s a a' =
     (if state a = exited then a' = a
      else if diverted (state a) then
        (\<exists>p. astar (passable s) (pos_x a, pos_y a) (fst (nearestExitPos s a)) ASTAR_CELL = Some p
           \<and> a' = (snd (nearestExitPos s a))
                    \<lparr>state := evacuating, targetAttractorId := None, path := p, pathIndex := 0,
                     speed := speed a * panicSpeedMultiplier (cfg s)\<rparr>)
      else a' = a\<lparr>speed := speed a * panicSpeedMultiplier (cfg s)\<rparr>)"

text \<open>
  The ids that leave the queues, in the order of the agent list, and the queues once one
  occurrence of each has been removed (\<^verbatim>\<open>indexOf\<close> and \<^verbatim>\<open>splice\<close>).
\<close>

definition evacuees :: "Agent list \<Rightarrow> nat list" where
  "evacuees as = map agent_id (filter (\<lambda>a. diverted (state a)) as)"

definition leftQueues :: "nat list \<Rightarrow> (string \<Rightarrow> nat list option) \<Rightarrow> (string \<Rightarrow> nat list option)" where
  "leftQueues ids qs = (\<lambda>k. map_option (\<lambda>q. foldl (\<lambda>q x. remove1 x q) q ids) (qs k))"

definition evacuationOf :: "SimEngine \<Rightarrow> SimEngine \<Rightarrow> bool" where
  "evacuationOf s s' =
     (isEvacuating s' \<and> length (agents s') = length (agents s)
      \<and> (\<forall>i < length (agents s). evacuatedAs s (agents s ! i) (agents s' ! i))
      \<and> queues s' = leftQueues (evacuees (agents s)) (queues s))"
















subsection \<open>The calls that trigger the evacuation\<close>






text \<open>A queue that holds no id twice holds none of the ids that have left it.\<close>

lemma remove_all_distinct:
  "distinct q \<Longrightarrow> set (foldl (\<lambda>q x. remove1 x q) q ids) = set q - set ids
                   \<and> distinct (foldl (\<lambda>q x. remove1 x q) q ids)"
proof (induction ids arbitrary: q)
  case Nil
  then show ?case by simp
next
  case (Cons x ids)
  have "distinct (remove1 x q)" using Cons.prems by simp
  from Cons.IH [OF this] Cons.prems show ?case by auto
qed


lemma evacuationOf_queuesDistinct:
  assumes "evacuationOf s s'" and "queuesDistinct s"
  shows "queuesDistinct s'"
proof -
  have "distinct q'" if "queues s' k = Some q'" for k q'
  proof -
    from that assms(1) obtain q where q: "queues s k = Some q"
      and q': "q' = foldl (\<lambda>q x. remove1 x q) q (evacuees (agents s))"
      by (auto simp add: evacuationOf_def leftQueues_def)
    have "distinct q" using assms(2) q by (simp add: queuesDistinct_def)
    from remove_all_distinct [OF this, of "evacuees (agents s)"] show ?thesis by (simp add: q')
  qed
  then show ?thesis by (simp add: queuesDistinct_def)
qed











end
